theory Spec2Isabelle
  imports Complex_Main "HOL-Library.Log_Nat"
begin

section \<open>Python values used by the report generator\<close>

text \<open>
  The report generator is Python. Its integers are unbounded (\<open>int\<close>), a
  \<^verbatim>\<open>datetime.date\<close> is represented by its proleptic Gregorian ordinal
  (\<^verbatim>\<open>date.toordinal()\<close>, an \<open>int\<close>), a timestamp by a number of seconds on the same
  axis, and a nullable column by an \<open>option\<close>. A money amount is a decimal number,
  represented by the rational it denotes. A \<^verbatim>\<open>float\<close> is an IEEE 754 double: a
  rational of 53 significant bits, or an infinity.
\<close>

datatype py_error = OverflowError | ZeroDivisionError

type_synonym date = int
type_synonym datetime = int

definition MINORDINAL :: int where
  "MINORDINAL = 1"

definition MAXORDINAL :: int where
  "MAXORDINAL = 3652059"

definition MAX_DELTA_DAYS :: int where
  "MAX_DELTA_DAYS = 999999999"

text \<open>
  \<^verbatim>\<open>d + timedelta(days=n)\<close>: the timedelta constructor refuses more than
  999999999 days in either direction, and the sum must be a date of the years 1 to 9999.
\<close>

definition date_add_days :: "date \<Rightarrow> int \<Rightarrow> py_error + date" where
  "date_add_days d n =
     (if \<bar>n\<bar> > MAX_DELTA_DAYS then Inl OverflowError
      else if MINORDINAL \<le> d + n \<and> d + n \<le> MAXORDINAL then Inr (d + n)
      else Inl OverflowError)"

text \<open>A date compared with a timestamp column stands for its midnight.\<close>

definition midnight :: "date \<Rightarrow> datetime" where
  "midnight d = 86400 * d"

text \<open>\<^verbatim>\<open>round(x)\<close> rounds to the nearest integer, a tie to the even neighbour.\<close>

definition py_round :: "rat \<Rightarrow> int" where
  "py_round x =
     (let f = \<lfloor>x\<rfloor>; d = x - of_int f
      in if d < 1 / 2 then f
         else if 1 / 2 < d then f + 1
         else if even f then f else f + 1)"

text \<open>
  Rounding to two decimals, a tie to the even neighbour: \<^verbatim>\<open>round(x, 2)\<close> on a
  decimal amount, and the decimal that \<^verbatim>\<open>round(x, 2)\<close> on a float goes through.
\<close>

definition py_round2 :: "rat \<Rightarrow> rat" where
  "py_round2 x = of_int (py_round (x * 100)) / 100"

text \<open>
  Floats. \<open>pow2 k\<close> is the power of two with exponent \<open>k\<close>, and
  \<open>float_exponent x\<close> is the binary exponent of a number other than 0: the \<open>e\<close>
  with \<open>pow2 e \<le> \<bar>x\<bar> < pow2 (e + 1)\<close>, read off the bit length of the integer part
  of \<open>\<bar>x\<bar>\<close>, or of its reciprocal when \<open>\<bar>x\<bar>\<close> is below 1.
\<close>

datatype py_float = Finite rat | PosInf | NegInf

definition pow2 :: "int \<Rightarrow> rat" where
  "pow2 k = (if 0 \<le> k then 2 ^ nat k else 1 / 2 ^ nat (- k))"

definition float_exponent :: "rat \<Rightarrow> int" where
  "float_exponent x =
     (let a = \<bar>x\<bar>
      in if 1 \<le> a then bitlen \<lfloor>a\<rfloor> - 1 else - bitlen (\<lceil>1 / a\<rceil> - 1))"

text \<open>
  The double nearest to a number, a tie to the even significand: 53 significant bits,
  the spacing of the subnormal numbers below \<open>pow2 (- 1022)\<close>, and an infinity when the
  rounded number reaches \<open>pow2 1024\<close>. Every float operation of the report generator
  is the exact operation followed by this rounding.
\<close>

definition round_to_double :: "rat \<Rightarrow> py_float" where
  "round_to_double x =
     (if x = 0 then Finite 0
      else (let e = max (float_exponent x) (- 1022);
                u = pow2 (e - 52);
                r = of_int (py_round (x / u)) * u
            in if pow2 1024 \<le> \<bar>r\<bar> then (if 0 < x then PosInf else NegInf)
               else Finite r))"

text \<open>
  \<^verbatim>\<open>a / b\<close> on integers: raises on a zero divisor, and when the quotient is too
  large for a float; otherwise the double nearest to the quotient.
\<close>

definition py_truediv :: "int \<Rightarrow> int \<Rightarrow> py_error + rat" where
  "py_truediv a b =
     (if b = 0 then Inl ZeroDivisionError
      else (case round_to_double (of_int a / of_int b) of
              Finite q \<Rightarrow> Inr q
            | PosInf \<Rightarrow> Inl OverflowError
            | NegInf \<Rightarrow> Inl OverflowError))"

text \<open>
  \<^verbatim>\<open>round(x, 2)\<close> on a float: the double nearest to the two-decimal rounding of
  its value; an infinity rounds to itself.
\<close>

definition float_round2 :: "py_float \<Rightarrow> py_float" where
  "float_round2 x =
     (case x of
        Finite v \<Rightarrow> round_to_double (py_round2 v)
      | PosInf \<Rightarrow> PosInf
      | NegInf \<Rightarrow> NegInf)"

text \<open>\<^verbatim>\<open>sep.join(xs)\<close>.\<close>

fun join :: "string \<Rightarrow> string list \<Rightarrow> string" where
  "join sep [] = []"
| "join sep [x] = x"
| "join sep (x # y # ys) = x @ sep @ join sep (y # ys)"

text \<open>\<^verbatim>\<open>min(xs)\<close> of a non-empty sequence; the callers guard the empty one.\<close>

fun py_min :: "int list \<Rightarrow> int option" where
  "py_min [] = None"
| "py_min (x # xs) = Some (fold min xs x)"

text \<open>Sequencing of a computation that may raise over a list.\<close>

fun mapM :: "('a \<Rightarrow> 'e + 'b) \<Rightarrow> 'a list \<Rightarrow> 'e + 'b list" where
  "mapM f [] = Inr []"
| "mapM f (x # xs) =
     (case f x of
        Inl e \<Rightarrow> Inl e
      | Inr y \<Rightarrow> (case mapM f xs of Inl e \<Rightarrow> Inl e | Inr ys \<Rightarrow> Inr (y # ys)))"

section \<open>Data model\<close>

text \<open>
  The model classes live outside the report generator; the fields below are the columns
  that the queries and the batch ledger read. The tables of one database state are
  lists in storage order.
\<close>

record stock_batch =
  batch_id :: int
  batch_product_id :: int
  quantity :: int
  expiration_date :: "date option"
  reason :: string

record product =
  product_id :: int
  product_name :: string
  product_category_id :: "int option"
  min_stock_level :: int
  stock_level :: int

record category =
  category_id :: int
  category_name :: string

record user =
  user_id :: int
  full_name :: string
  role :: string

record sale =
  sale_id :: int
  created_at :: datetime
  retailer_id :: int

record sale_item =
  item_sale_id :: int
  item_product_id :: int
  item_quantity :: int
  line_total :: rat

record product_log =
  log_id :: int
  log_product_id :: int
  action_type :: string
  log_notes :: string

record database =
  category_table :: "category list"
  product_table :: "product list"
  stock_batch_table :: "stock_batch list"
  sale_table :: "sale list"
  sale_item_table :: "sale_item list"
  user_table :: "user list"
  product_log_table :: "product_log list"
  counters :: "string \<rightharpoonup> int"

text \<open>
  The relationships \<^verbatim>\<open>product.stock_batches\<close> and \<^verbatim>\<open>category.products\<close>, read
  through the foreign keys of the data model.
\<close>

definition stock_batches :: "database \<Rightarrow> product \<Rightarrow> stock_batch list" where
  "stock_batches db p =
     filter (\<lambda>b. batch_product_id b = product_id p) (stock_batch_table db)"

definition category_products :: "database \<Rightarrow> category \<Rightarrow> product list" where
  "category_products db c =
     filter (\<lambda>p. product_category_id p = Some (category_id c)) (product_table db)"

text \<open>
  Every report is a dictionary with an id, a name, a list of rows (under the key
  \<^verbatim>\<open>sales\<close>, \<^verbatim>\<open>categories\<close> or \<^verbatim>\<open>alerts\<close>) and a summary; the date-ranged
  ones carry the range as well.
\<close>

record ('row, 'summary) report =
  report_id :: nat
  report_name :: string
  rows :: "'row list"
  summary :: 'summary

record ('row, 'summary) ranged_report = "('row, 'summary) report" +
  date_range :: "date \<times> date"

section \<open>Report 1: sales performance\<close>

record sales_result =
  r_sale_id :: int
  r_created_at :: datetime
  r_product_name :: string
  r_quantity :: int
  r_line_total :: rat
  r_retailer_name :: string

record sales_row =
  row_sale_id :: int
  row_date :: datetime
  row_product_name :: string
  quantity_sold :: int
  total_price :: rat
  retailer_name :: string

record sales_summary =
  total_income :: rat
  total_quantity_sold :: int
  total_transactions :: nat

text \<open>
  The query: sales joined with their items, the items' products and the sales'
  retailers, kept when the sale falls in the range, newest first.
\<close>

definition sales_query :: "database \<Rightarrow> date \<Rightarrow> date \<Rightarrow> sales_result list" where
  "sales_query db start_date end_date =
     sort_key (\<lambda>r. - r_created_at r)
       [\<lparr>r_sale_id = sale_id s, r_created_at = created_at s,
         r_product_name = product_name p, r_quantity = item_quantity i,
         r_line_total = line_total i, r_retailer_name = full_name u\<rparr>.
        s \<leftarrow> sale_table db,
        i \<leftarrow> sale_item_table db, sale_id s = item_sale_id i,
        p \<leftarrow> product_table db, item_product_id i = product_id p,
        u \<leftarrow> user_table db, retailer_id s = user_id u,
        midnight start_date \<le> created_at s, created_at s \<le> midnight end_date]"

definition sales_row_of :: "sales_result \<Rightarrow> sales_row" where
  "sales_row_of r =
     \<lparr>row_sale_id = r_sale_id r, row_date = r_created_at r,
      row_product_name = r_product_name r, quantity_sold = r_quantity r,
      total_price = r_line_total r, retailer_name = r_retailer_name r\<rparr>"

definition sales_performance_report ::
  "database \<Rightarrow> date \<Rightarrow> date option \<Rightarrow> date option
     \<Rightarrow> py_error + (sales_row, sales_summary) ranged_report" where
  "sales_performance_report db today start_date end_date =
     (case (case start_date of None \<Rightarrow> date_add_days today (- 30) | Some d \<Rightarrow> Inr d) of
        Inl e \<Rightarrow> Inl e
      | Inr start \<Rightarrow>
          (let stop = (case end_date of None \<Rightarrow> today | Some d \<Rightarrow> d);
               results = sales_query db start stop;
               total_income = sum_list (map r_line_total results);
               total_quantity = sum_list (map r_quantity results)
           in Inr \<lparr>report_id = 1,
                   report_name = ''Sales Performance Report'',
                   rows = map sales_row_of results,
                   summary = \<lparr>total_income = py_round2 total_income,
                              total_quantity_sold = total_quantity,
                              total_transactions = card (set (map r_sale_id results))\<rparr>,
                   date_range = (start, stop)\<rparr>))"

section \<open>Report 6: detailed sales transactions\<close>

definition detailed_sales_transaction_report ::
  "database \<Rightarrow> date \<Rightarrow> date option \<Rightarrow> date option
     \<Rightarrow> py_error + (sales_row, sales_summary) ranged_report" where
  "detailed_sales_transaction_report db today start_date end_date =
     sales_performance_report db today start_date end_date"

section \<open>Report 2: category distribution\<close>

record category_row =
  row_category_id :: int
  row_category_name :: string
  number_of_products :: nat
  total_stock_quantity :: int
  percentage_share :: py_float

record category_summary =
  total_categories :: nat
  total_stock :: int

definition batch_quantity_sum :: "database \<Rightarrow> product \<Rightarrow> int" where
  "batch_quantity_sum db p = sum_list (map quantity (stock_batches db p))"

definition category_stock :: "database \<Rightarrow> category \<Rightarrow> int" where
  "category_stock db c = sum_list (map (batch_quantity_sum db) (category_products db c))"

definition all_categories_stock :: "database \<Rightarrow> int" where
  "all_categories_stock db =
     sum_list [batch_quantity_sum db p. c \<leftarrow> category_table db, p \<leftarrow> category_products db c]"

text \<open>
  \<^verbatim>\<open>(category_stock / total_stock * 100) if total_stock > 0 else 0\<close>: a float
  division, then a float multiplication by 100.
\<close>

definition percentage :: "int \<Rightarrow> int \<Rightarrow> py_error + py_float" where
  "percentage cat_stock stock_total =
     (if stock_total > 0
      then (case py_truediv cat_stock stock_total of
              Inl e \<Rightarrow> Inl e
            | Inr q \<Rightarrow> Inr (round_to_double (q * 100)))
      else Inr (Finite 0))"

definition category_entry :: "database \<Rightarrow> int \<Rightarrow> category \<Rightarrow> py_error + category_row" where
  "category_entry db stock_total c =
     (let products_count = length (category_products db c);
          cat_stock = category_stock db c
      in case percentage cat_stock stock_total of
           Inl e \<Rightarrow> Inl e
         | Inr pct \<Rightarrow>
             Inr \<lparr>row_category_id = category_id c,
                  row_category_name = category_name c,
                  number_of_products = products_count,
                  total_stock_quantity = cat_stock,
                  percentage_share = float_round2 pct\<rparr>)"

definition category_distribution_report ::
  "database \<Rightarrow> py_error + (category_row, category_summary) report" where
  "category_distribution_report db =
     (let cats = category_table db;
          stock_total = all_categories_stock db
      in case mapM (category_entry db stock_total) cats of
           Inl e \<Rightarrow> Inl e
         | Inr category_data \<Rightarrow>
             Inr \<lparr>report_id = 2,
                  report_name = ''Category Distribution Report'',
                  rows = category_data,
                  summary = \<lparr>total_categories = length cats, total_stock = stock_total\<rparr>\<rparr>)"

section \<open>Report 4: low stock and expiration alerts\<close>

record alert_row =
  alert_product_id :: int
  alert_product_name :: string
  current_stock :: int
  alert_min_stock_level :: int
  alert_expiration_date :: "date option"
  alert_status_text :: string
  severity :: string

record alert_summary =
  total_alerts :: nat
  critical_alerts :: nat
  warning_alerts :: nat

text \<open>The low stock check of the loop body.\<close>

definition low_stock_status :: "product \<Rightarrow> string list" where
  "low_stock_status p =
     (if stock_level p < min_stock_level p
      then (if stock_level p = 0 then [''OUT_OF_STOCK''] else [''LOW_STOCK''])
      else [])"

text \<open>The expiration check: a comprehension over the product's batches, in their order.\<close>

definition expiring_batches :: "database \<Rightarrow> date \<Rightarrow> product \<Rightarrow> stock_batch list" where
  "expiring_batches db cutoff_date p =
     filter (\<lambda>b. case expiration_date b of
                   None \<Rightarrow> False
                 | Some d \<Rightarrow> d \<le> cutoff_date \<and> quantity b > 0)
       (stock_batches db p)"

definition expiration_dates :: "stock_batch list \<Rightarrow> date list" where
  "expiration_dates bs = List.map_filter expiration_date bs"

definition alert_status :: "database \<Rightarrow> date \<Rightarrow> product \<Rightarrow> string list" where
  "alert_status db cutoff_date p =
     low_stock_status p
     @ (if expiring_batches db cutoff_date p \<noteq> [] then [''EXPIRING_SOON''] else [])"

definition earliest_expiry :: "database \<Rightarrow> date \<Rightarrow> product \<Rightarrow> date option" where
  "earliest_expiry db cutoff_date p =
     (if expiring_batches db cutoff_date p \<noteq> []
      then py_min (expiration_dates (expiring_batches db cutoff_date p))
      else None)"

definition product_alert :: "database \<Rightarrow> date \<Rightarrow> product \<Rightarrow> alert_row option" where
  "product_alert db cutoff_date p =
     (let status = alert_status db cutoff_date p
      in if status \<noteq> []
         then Some \<lparr>alert_product_id = product_id p,
                    alert_product_name = product_name p,
                    current_stock = stock_level p,
                    alert_min_stock_level = min_stock_level p,
                    alert_expiration_date = earliest_expiry db cutoff_date p,
                    alert_status_text = join '', '' status,
                    severity = (if ''OUT_OF_STOCK'' \<in> set status
                                then ''CRITICAL'' else ''WARNING'')\<rparr>
         else None)"

definition low_stock_and_expiration_alert_report ::
  "database \<Rightarrow> date \<Rightarrow> int \<Rightarrow> py_error + (alert_row, alert_summary) report" where
  "low_stock_and_expiration_alert_report db today days_ahead =
     (case date_add_days today days_ahead of
        Inl e \<Rightarrow> Inl e
      | Inr cutoff_date \<Rightarrow>
          (let alerts = List.map_filter (product_alert db cutoff_date) (product_table db)
           in Inr \<lparr>report_id = 4,
                   report_name = ''Low-Stock and Expiration Alert Report'',
                   rows = alerts,
                   summary =
                     \<lparr>total_alerts = length alerts,
                      critical_alerts =
                        length (filter (\<lambda>a. severity a = ''CRITICAL'') alerts),
                      warning_alerts =
                        length (filter (\<lambda>a. severity a = ''WARNING'') alerts)\<rparr>\<rparr>))"

section \<open>Sequence counters and the base document\<close>

text \<open>The seed list of \<^verbatim>\<open>counters_init.py\<close>.\<close>

definition initial_counters :: "(string \<times> int) list" where
  "initial_counters =
     [(''user_id'', 1000), (''product_id'', 0), (''category_id'', 0), (''sale_id'', 0),
      (''stockbatch_id'', 0), (''productlog_id'', 0), (''apiactivitylog_id'', 0),
      (''retailermetrics_id'', 0), (''saleitem_id'', 0)]"

text \<open>
  The seeding loop: an upsert with \<^verbatim>\<open>$setOnInsert\<close>, which writes a counter only
  when the collection has none under that key.
\<close>

definition seed_counter :: "string \<times> int \<Rightarrow> (string \<rightharpoonup> int) \<Rightarrow> (string \<rightharpoonup> int)" where
  "seed_counter c cs = (case cs (fst c) of None \<Rightarrow> cs(fst c \<mapsto> snd c) | Some v \<Rightarrow> cs)"

definition seed_counters :: "(string \<rightharpoonup> int) \<Rightarrow> (string \<rightharpoonup> int)" where
  "seed_counters cs = fold seed_counter initial_counters cs"

text \<open>
  Modelled from the spec: the key of a collection's counter document, which
  \<^verbatim>\<open>utils.counters\<close> (missing from the sources) derives from the collection name.
  The counters are named as the seed list names them, by the collection name followed by
  \<^verbatim>\<open>_id\<close>.
\<close>

definition counter_key :: "string \<Rightarrow> string" where
  "counter_key collection_name = collection_name @ ''_id''"

text \<open>
  Modelled from the spec: the value a missing counter is created with, 0 by default and
  1000 for the user counter.
\<close>

definition initial_seq :: "string \<Rightarrow> int" where
  "initial_seq key = (if key = ''user_id'' then 1000 else 0)"

text \<open>
  Modelled from the spec: the value of a collection's counter, a missing counter
  counting as its initial value.
\<close>

definition current_seq :: "string \<Rightarrow> (string \<rightharpoonup> int) \<Rightarrow> int" where
  "current_seq collection_name cs =
     (case cs (counter_key collection_name) of
        None \<Rightarrow> initial_seq (counter_key collection_name)
      | Some v \<Rightarrow> v)"

text \<open>
  Modelled from the spec: \<^verbatim>\<open>utils.counters.get_next_sequence\<close> is imported by the
  base document and is missing from the sources. The specification describes it as one
  atomic step: find the counter document of the collection, increment its \<^verbatim>\<open>seq\<close>
  and return the new value, creating the counter first when it is missing. The store is
  taken to be available; a call that cannot reach it makes no change.
\<close>

definition get_next_sequence :: "string \<Rightarrow> (string \<rightharpoonup> int) \<Rightarrow> int \<times> (string \<rightharpoonup> int)" where
  "get_next_sequence collection_name cs =
     (let n = current_seq collection_name cs + 1
      in (n, cs(counter_key collection_name \<mapsto> n)))"

text \<open>
  \<^verbatim>\<open>BaseDocument\<close>: the primary key and the name of the document's class.
  Subclasses add their fields to the record.
\<close>

record base_document =
  doc_id :: "int option"
  class_name :: string

definition ascii_lower :: "char \<Rightarrow> char" where
  "ascii_lower c =
     (let n = (of_char c :: nat) in if 65 \<le> n \<and> n \<le> 90 then char_of (n + 32) else c)"

definition lower :: "string \<Rightarrow> string" where
  "lower s = map ascii_lower s"

text \<open>
  The collection name that \<^verbatim>\<open>save\<close> computes. The document metaclass takes the
  \<^verbatim>\<open>meta\<close> dictionary out of the class, so \<^verbatim>\<open>getattr(self, 'meta', {})\<close> is
  the empty default and the name is always the lowercased class name.
\<close>

definition collection_name_of :: "'a base_document_scheme \<Rightarrow> string" where
  "collection_name_of doc = lower (class_name doc)"

text \<open>
  The state that \<^verbatim>\<open>save\<close> works on: the counters and the document's collection,
  keyed by primary key.
\<close>

record 'd mongo =
  mongo_counters :: "string \<rightharpoonup> int"
  mongo_collection :: "int \<rightharpoonup> 'd"

text \<open>
  The inherited \<^verbatim>\<open>Document.save\<close>: stores the document under its primary key and
  returns it.
\<close>

definition super_save ::
  "'a base_document_scheme \<Rightarrow> 'a base_document_scheme mongo
     \<Rightarrow> 'a base_document_scheme \<times> 'a base_document_scheme mongo" where
  "super_save doc st =
     (doc, (case doc_id doc of
              None \<Rightarrow> st
            | Some i \<Rightarrow> st\<lparr>mongo_collection := (mongo_collection st)(i \<mapsto> doc)\<rparr>))"

definition save ::
  "'a base_document_scheme \<Rightarrow> 'a base_document_scheme mongo
     \<Rightarrow> 'a base_document_scheme \<times> 'a base_document_scheme mongo" where
  "save doc st =
     (if doc_id doc = None
      then (let (n, cs) = get_next_sequence (collection_name_of doc) (mongo_counters st)
            in super_save (doc\<lparr>doc_id := Some n\<rparr>) (st\<lparr>mongo_counters := cs\<rparr>))
      else super_save doc st)"

section \<open>The batch ledger\<close>

text \<open>
  The server-side operations \<^verbatim>\<open>add_batch\<close>, \<^verbatim>\<open>dispose\<close> and
  \<^verbatim>\<open>delete_batch\<close> are missing from the sources, which hold only their callers in
  the desktop client (the dispose dialog caps the quantity at what the batch holds, the
  product page refuses to delete a batch that holds units). The definitions of this
  section follow section 4.2 of the specification. Each operation is one step on the
  database, so the batch and the product's stock level are written together or not at
  all. The store is taken to be available, and the invariant check that the
  specification asks for is the subject of the theorems on the ledger, not a test the
  model runs.
\<close>

text \<open>Modelled from the spec: the failures of the ledger operations, section 7.\<close>

datatype ledger_error =
  ProductNotFound | NotFound | InvalidQuantity | InsufficientQuantity | BatchNotEmpty

text \<open>Modelled from the spec: reading a product or a batch by its id.\<close>

definition product_exists :: "int \<Rightarrow> database \<Rightarrow> bool" where
  "product_exists pid db = list_ex (\<lambda>p. product_id p = pid) (product_table db)"

definition find_batch :: "int \<Rightarrow> database \<Rightarrow> stock_batch option" where
  "find_batch bid db = find (\<lambda>b. batch_id b = bid) (stock_batch_table db)"

text \<open>
  Modelled from the spec: writing a batch document. Documents are keyed by their id, so
  a batch whose id is taken replaces the stored one, and a new id is appended.
\<close>

fun put_batch :: "stock_batch \<Rightarrow> stock_batch list \<Rightarrow> stock_batch list" where
  "put_batch b [] = [b]"
| "put_batch b (x # xs) =
     (if batch_id x = batch_id b then b # xs else x # put_batch b xs)"

text \<open>Modelled from the spec: changing the stock level of the product with a given id.\<close>

definition adjust_stock :: "int \<Rightarrow> int \<Rightarrow> product list \<Rightarrow> product list" where
  "adjust_stock pid delta ps =
     map (\<lambda>p. if product_id p = pid then p\<lparr>stock_level := stock_level p + delta\<rparr> else p) ps"

text \<open>
  Modelled from the spec: appending a product log entry, whose id comes from the
  sequence counter of the log collection.
\<close>

definition append_log :: "int \<Rightarrow> string \<Rightarrow> string \<Rightarrow> database \<Rightarrow> database" where
  "append_log pid action note db =
     (let (n, cs) = get_next_sequence ''productlog'' (counters db)
      in db\<lparr>counters := cs,
            product_log_table := product_log_table db
              @ [\<lparr>log_id = n, log_product_id = pid, action_type = action,
                  log_notes = note\<rparr>]\<rparr>)"

text \<open>
  Modelled from the spec: \<^verbatim>\<open>add_batch(product_id, quantity, expiration_date, reason)\<close>
  fails with \<^verbatim>\<open>ProductNotFound\<close> when the product does not exist and with
  \<^verbatim>\<open>InvalidQuantity\<close> when the quantity is not positive; otherwise it allocates an
  id, stores the batch, adds the quantity to the product's stock level and logs
  \<^verbatim>\<open>ADD_BATCH\<close>.
\<close>

definition add_batch ::
  "int \<Rightarrow> int \<Rightarrow> date option \<Rightarrow> string \<Rightarrow> database
     \<Rightarrow> ledger_error + stock_batch \<times> database" where
  "add_batch pid q expiry rsn db =
     (if \<not> product_exists pid db then Inl ProductNotFound
      else if q \<le> 0 then Inl InvalidQuantity
      else (let (n, cs) = get_next_sequence ''stockbatch'' (counters db);
                b = \<lparr>batch_id = n, batch_product_id = pid, quantity = q,
                     expiration_date = expiry, reason = rsn\<rparr>
            in Inr (b, append_log pid ''ADD_BATCH'' rsn
                         (db\<lparr>counters := cs,
                             stock_batch_table := put_batch b (stock_batch_table db),
                             product_table := adjust_stock pid q (product_table db)\<rparr>))))"

text \<open>
  Modelled from the spec: \<^verbatim>\<open>dispose(batch_id, quantity, reason)\<close> fails with
  \<^verbatim>\<open>InsufficientQuantity\<close> when the quantity exceeds what the batch holds;
  otherwise it takes the quantity from the batch and from the product's stock level and
  logs \<^verbatim>\<open>DISPOSE\<close>. The quantity has to be positive, as for \<^verbatim>\<open>add_batch\<close>,
  and an unknown batch is \<^verbatim>\<open>NotFound\<close>.
\<close>

definition dispose ::
  "int \<Rightarrow> int \<Rightarrow> string \<Rightarrow> database \<Rightarrow> ledger_error + stock_batch \<times> database" where
  "dispose bid q rsn db =
     (case find_batch bid db of
        None \<Rightarrow> Inl NotFound
      | Some b \<Rightarrow>
          if quantity b < q then Inl InsufficientQuantity
          else if q \<le> 0 then Inl InvalidQuantity
          else (let b' = b\<lparr>quantity := quantity b - q\<rparr>
                in Inr (b', append_log (batch_product_id b) ''DISPOSE'' rsn
                              (db\<lparr>stock_batch_table := put_batch b' (stock_batch_table db),
                                  product_table :=
                                    adjust_stock (batch_product_id b) (- q)
                                      (product_table db)\<rparr>))))"

text \<open>
  Modelled from the spec: \<^verbatim>\<open>delete_batch(batch_id)\<close> fails with
  \<^verbatim>\<open>BatchNotEmpty\<close> when the batch's quantity is above 0; otherwise it removes the
  batch and logs \<^verbatim>\<open>DELETE_BATCH\<close>.
\<close>

definition delete_batch :: "int \<Rightarrow> database \<Rightarrow> ledger_error + database" where
  "delete_batch bid db =
     (case find_batch bid db of
        None \<Rightarrow> Inl NotFound
      | Some b \<Rightarrow>
          if quantity b > 0 then Inl BatchNotEmpty
          else Inr (append_log (batch_product_id b) ''DELETE_BATCH'' []
                      (db\<lparr>stock_batch_table :=
                            filter (\<lambda>x. batch_id x \<noteq> bid) (stock_batch_table db)\<rparr>)))"

text \<open>
  Modelled from the spec: a sequence of ledger calls. Every call is all or nothing, so a
  call that fails commits nothing and the next call sees the state the failed one was
  given.
\<close>

datatype ledger_op =
  AddBatch int int "date option" string
| Dispose int int string
| DeleteBatch int

fun apply_op :: "ledger_op \<Rightarrow> database \<Rightarrow> ledger_error + database" where
  "apply_op (AddBatch pid q expiry rsn) db =
     (case add_batch pid q expiry rsn db of Inl e \<Rightarrow> Inl e | Inr (b, db') \<Rightarrow> Inr db')"
| "apply_op (Dispose bid q rsn) db =
     (case dispose bid q rsn db of Inl e \<Rightarrow> Inl e | Inr (b, db') \<Rightarrow> Inr db')"
| "apply_op (DeleteBatch bid) db = delete_batch bid db"

definition commit :: "ledger_op \<Rightarrow> database \<Rightarrow> database" where
  "commit op db = (case apply_op op db of Inl e \<Rightarrow> db | Inr db' \<Rightarrow> db')"

definition run_ops :: "ledger_op list \<Rightarrow> database \<Rightarrow> database" where
  "run_ops ops db = fold commit ops db"

text \<open>
  The ledger's invariant: every product's stock level is the sum of its batches'
  quantities, no quantity is negative, batch ids are unique, and the batch counter has
  reached every id in use. \<open>table_quantity\<close> is the sum of the quantities that a
  batch table holds for one product id.
\<close>

definition table_quantity :: "int \<Rightarrow> stock_batch list \<Rightarrow> int" where
  "table_quantity pid bs = sum_list (map quantity (filter (\<lambda>b. batch_product_id b = pid) bs))"

definition stock_consistent :: "database \<Rightarrow> bool" where
  "stock_consistent db =
     list_all (\<lambda>p. stock_level p = batch_quantity_sum db p) (product_table db)"

definition ledger_inv :: "database \<Rightarrow> bool" where
  "ledger_inv db \<longleftrightarrow>
     stock_consistent db
     \<and> list_all (\<lambda>b. 0 \<le> quantity b) (stock_batch_table db)
     \<and> distinct (map batch_id (stock_batch_table db))
     \<and> list_all (\<lambda>b. batch_id b \<le> current_seq ''stockbatch'' (counters db))
         (stock_batch_table db)"

section \<open>Concrete states\<close>

text \<open>
  The scenario of the specification: product P with the batches B1 (5 units, expiring
  2024-01-01, ordinal 738886) and B2 (3 units, expiring 2024-06-01, ordinal 739038),
  looked at on 2023-12-15 (ordinal 738869).
\<close>

definition empty_database :: database where
  "empty_database =
     \<lparr>category_table = [], product_table = [], stock_batch_table = [], sale_table = [],
      sale_item_table = [], user_table = [], product_log_table = [],
      counters = Map.empty\<rparr>"

definition product_P :: product where
  "product_P =
     \<lparr>product_id = 1, product_name = ''P'', product_category_id = Some 1,
      min_stock_level = 10, stock_level = 8\<rparr>"

definition batch_B1 :: stock_batch where
  "batch_B1 =
     \<lparr>batch_id = 1, batch_product_id = 1, quantity = 5, expiration_date = Some 738886,
      reason = ''delivery''\<rparr>"

definition batch_B2 :: stock_batch where
  "batch_B2 =
     \<lparr>batch_id = 2, batch_product_id = 1, quantity = 3, expiration_date = Some 739038,
      reason = ''delivery''\<rparr>"

definition scenario_db :: database where
  "scenario_db =
     \<lparr>category_table = [\<lparr>category_id = 1, category_name = ''Dairy''\<rparr>,
                        \<lparr>category_id = 2, category_name = ''Bakery''\<rparr>],
      product_table = [product_P],
      stock_batch_table = [batch_B1, batch_B2],
      sale_table = [\<lparr>sale_id = 1, created_at = 63838195200, retailer_id = 1001\<rparr>,
                    \<lparr>sale_id = 2, created_at = 63838281600, retailer_id = 1001\<rparr>],
      sale_item_table =
        [\<lparr>item_sale_id = 1, item_product_id = 1, item_quantity = 2, line_total = 5 / 2\<rparr>,
         \<lparr>item_sale_id = 1, item_product_id = 1, item_quantity = 1, line_total = 5 / 4\<rparr>,
         \<lparr>item_sale_id = 2, item_product_id = 1, item_quantity = 4, line_total = 5\<rparr>],
      user_table = [\<lparr>user_id = 1001, full_name = ''R'', role = ''retailer''\<rparr>],
      product_log_table = [],
      counters = [''stockbatch_id'' \<mapsto> 2]\<rparr>"

text \<open>
  Product P when the batch that expires later was added first: batch 1 expires
  2024-06-01, batch 2 expires 2024-01-01.
\<close>

definition late_first_db :: database where
  "late_first_db =
     scenario_db\<lparr>stock_batch_table :=
       [batch_B2\<lparr>batch_id := 1\<rparr>, batch_B1\<lparr>batch_id := 2\<rparr>]\<rparr>"

text \<open>A product that is out of stock and has no minimum stock level.\<close>

definition product_no_minimum :: product where
  "product_no_minimum =
     \<lparr>product_id = 2, product_name = ''Q'', product_category_id = None,
      min_stock_level = 0, stock_level = 0\<rparr>"

text \<open>The product P before any batch was added.\<close>

definition fresh_db :: database where
  "fresh_db =
     empty_database\<lparr>product_table := [product_P\<lparr>stock_level := 0\<rparr>],
                    counters := seed_counters Map.empty\<rparr>"

definition scenario_ops :: "ledger_op list" where
  "scenario_ops =
     [AddBatch 1 5 (Some 738886) ''delivery'', AddBatch 1 3 (Some 739038) ''delivery'',
      Dispose 1 5 ''expired'', DeleteBatch 1]"

text \<open>Two categories whose products hold 67 and 93 units of a total of 160.\<close>

definition shares_db :: database where
  "shares_db =
     empty_database
       \<lparr>category_table := [\<lparr>category_id = 1, category_name = ''Dairy''\<rparr>,
                           \<lparr>category_id = 2, category_name = ''Bakery''\<rparr>],
        product_table :=
          [\<lparr>product_id = 1, product_name = ''P'', product_category_id = Some 1,
            min_stock_level = 10, stock_level = 67\<rparr>,
           \<lparr>product_id = 2, product_name = ''Q'', product_category_id = Some 2,
            min_stock_level = 10, stock_level = 93\<rparr>],
        stock_batch_table :=
          [\<lparr>batch_id = 1, batch_product_id = 1, quantity = 67, expiration_date = None,
            reason = ''delivery''\<rparr>,
           \<lparr>batch_id = 2, batch_product_id = 2, quantity = 93, expiration_date = None,
            reason = ''delivery''\<rparr>]\<rparr>"

text \<open>A product document that was never saved.\<close>

definition unsaved_doc :: base_document where
  "unsaved_doc = \<lparr>doc_id = None, class_name = ''Product''\<rparr>"

definition empty_mongo :: "base_document mongo" where
  "empty_mongo = \<lparr>mongo_counters = Map.empty, mongo_collection = Map.empty\<rparr>"

section \<open>Properties of the alert report\<close>

lemma low_stock_status_out:
  "''OUT_OF_STOCK'' \<in> set (low_stock_status p) \<longleftrightarrow> stock_level p = 0 \<and> 0 < min_stock_level p"
  by (auto simp: low_stock_status_def)

lemma low_stock_status_low:
  "''LOW_STOCK'' \<in> set (low_stock_status p) \<longleftrightarrow> stock_level p \<noteq> 0 \<and> stock_level p < min_stock_level p"
  by (auto simp: low_stock_status_def)

lemma alert_status_out:
  "''OUT_OF_STOCK'' \<in> set (alert_status db c p) \<longleftrightarrow> stock_level p = 0 \<and> 0 < min_stock_level p"
  by (simp add: alert_status_def low_stock_status_out)

lemma alert_status_low:
  "''LOW_STOCK'' \<in> set (alert_status db c p) \<longleftrightarrow> stock_level p \<noteq> 0 \<and> stock_level p < min_stock_level p"
  by (simp add: alert_status_def low_stock_status_low)

lemma product_alert_None: "product_alert db c p = None \<longleftrightarrow> alert_status db c p = []"
  by (simp add: product_alert_def Let_def)

lemma product_alert_severity:
  "product_alert db c p = Some row \<Longrightarrow>
     severity row = (if ''OUT_OF_STOCK'' \<in> set (alert_status db c p) then ''CRITICAL'' else ''WARNING'')"
  by (auto simp: product_alert_def Let_def split: if_splits)

lemma product_alert_id:
  "product_alert db c p = Some row \<Longrightarrow> alert_product_id row = product_id p"
  by (auto simp: product_alert_def Let_def split: if_splits)

lemma map_filter_alert_ids:
  "map alert_product_id (List.map_filter (product_alert db c) ps)
     = map product_id (filter (\<lambda>p. alert_status db c p \<noteq> []) ps)"
proof (induction ps)
  case Nil
  show ?case by simp
next
  case (Cons p ps)
  show ?case
  proof (cases "product_alert db c p")
    case None
    then have step: "List.map_filter (product_alert db c) (p # ps) = List.map_filter (product_alert db c) ps"
      by simp
    from None have "alert_status db c p = []" by (simp add: product_alert_None)
    with step Cons show ?thesis by simp
  next
    case (Some row)
    then have step: "List.map_filter (product_alert db c) (p # ps) = row # List.map_filter (product_alert db c) ps"
      by simp
    from Some have "alert_status db c p \<noteq> []" using product_alert_None[of db c p] by simp
    with step Some Cons show ?thesis by (simp add: product_alert_id)
  qed
qed

text \<open>
  Claim C3, as the code has it. The low stock check runs only when the stock level is
  below the minimum, so the tag \<^verbatim>\<open>OUT_OF_STOCK\<close> is set exactly when the stock
  level is 0 and the minimum stock level is positive, and \<^verbatim>\<open>LOW_STOCK\<close> exactly
  when the stock level is not 0 and below the minimum (for a stock level that is not
  negative: when it lies strictly between 0 and the minimum). A product gets an alert row
  exactly when its tag list is not empty; the row's severity is \<^verbatim>\<open>CRITICAL\<close> when
  \<^verbatim>\<open>OUT_OF_STOCK\<close> is among the tags and \<^verbatim>\<open>WARNING\<close> otherwise; the report's
  rows are those of the products with a tag, in table order.
\<close>

theorem alert_classification:
  "(''OUT_OF_STOCK'' \<in> set (alert_status db c p) \<longleftrightarrow> stock_level p = 0 \<and> 0 < min_stock_level p)
   \<and> (''LOW_STOCK'' \<in> set (alert_status db c p) \<longleftrightarrow> stock_level p \<noteq> 0 \<and> stock_level p < min_stock_level p)
   \<and> (0 \<le> stock_level p \<longrightarrow>
        (''LOW_STOCK'' \<in> set (alert_status db c p) \<longleftrightarrow> 0 < stock_level p \<and> stock_level p < min_stock_level p))
   \<and> (product_alert db c p = None \<longleftrightarrow> alert_status db c p = [])
   \<and> (\<forall>row. product_alert db c p = Some row \<longrightarrow>
        severity row = (if ''OUT_OF_STOCK'' \<in> set (alert_status db c p) then ''CRITICAL'' else ''WARNING''))
   \<and> (date_add_days today days_ahead = Inr c \<longrightarrow>
        (\<exists>rep. low_stock_and_expiration_alert_report db today days_ahead = Inr rep
           \<and> map alert_product_id (rows rep)
               = map product_id (filter (\<lambda>p. alert_status db c p \<noteq> []) (product_table db))))"
proof -
  have low: "0 \<le> stock_level p \<longrightarrow>
        (''LOW_STOCK'' \<in> set (alert_status db c p) \<longleftrightarrow> 0 < stock_level p \<and> stock_level p < min_stock_level p)"
    by (auto simp: alert_status_low)
  have rep: "date_add_days today days_ahead = Inr c \<longrightarrow>
        (\<exists>rep. low_stock_and_expiration_alert_report db today days_ahead = Inr rep
           \<and> map alert_product_id (rows rep)
               = map product_id (filter (\<lambda>p. alert_status db c p \<noteq> []) (product_table db)))"
    by (simp add: low_stock_and_expiration_alert_report_def Let_def map_filter_alert_ids)
  show ?thesis
    using alert_status_out[of db c p] alert_status_low[of db c p] low
      product_alert_None[of db c p] product_alert_severity[of db c p] rep
    by blast
qed

theorem alert_classification_witness:
  "0 \<le> stock_level product_P
   \<and> ''LOW_STOCK'' \<in> set (alert_status scenario_db 738899 product_P)
   \<and> ''OUT_OF_STOCK'' \<notin> set (alert_status scenario_db 738899 product_P)
   \<and> date_add_days 738869 30 = Inr 738899
   \<and> (\<exists>row. product_alert scenario_db 738899 product_P = Some row \<and> severity row = ''WARNING'')
   \<and> (\<exists>rep. low_stock_and_expiration_alert_report scenario_db 738869 30 = Inr rep
         \<and> map alert_product_id (rows rep) = [1])
   \<and> alert_status empty_database 738899 (product_P\<lparr>stock_level := 0\<rparr>) = [''OUT_OF_STOCK'']
   \<and> (\<exists>row. product_alert empty_database 738899 (product_P\<lparr>stock_level := 0\<rparr>) = Some row
         \<and> severity row = ''CRITICAL'')
   \<and> alert_status empty_database 738899 (product_P\<lparr>stock_level := 5\<rparr>) = [''LOW_STOCK'']
   \<and> product_alert empty_database 738899 (product_P\<lparr>stock_level := 10\<rparr>) = None"
  using alert_classification[of scenario_db 738899 product_P 738869 30]
    alert_classification[of empty_database 738899 "product_P\<lparr>stock_level := 0\<rparr>" 738869 30]
    alert_classification[of empty_database 738899 "product_P\<lparr>stock_level := 5\<rparr>" 738869 30]
    alert_classification[of empty_database 738899 "product_P\<lparr>stock_level := 10\<rparr>" 738869 30]
  by (simp add: expiring_batches_def stock_batches_def scenario_db_def empty_database_def
      product_P_def batch_B1_def batch_B2_def date_add_days_def
      MAX_DELTA_DAYS_def MINORDINAL_def MAXORDINAL_def product_alert_def alert_status_def
      low_stock_status_def earliest_expiry_def Let_def)

text \<open>
  The claim as written fails on a product that has no stock and a minimum stock level
  of 0: its stock level is 0 and it is not tagged \<^verbatim>\<open>OUT_OF_STOCK\<close>.
\<close>

theorem out_of_stock_without_minimum:
  "\<not> (''OUT_OF_STOCK'' \<in> set (alert_status empty_database 7 product_no_minimum)
        \<longleftrightarrow> stock_level product_no_minimum = 0)"
  by (simp add: alert_status_def low_stock_status_def expiring_batches_def stock_batches_def
      empty_database_def product_no_minimum_def)

lemma expiring_batches_filter:
  "expiring_batches db c p =
     filter (\<lambda>b. 0 < quantity b \<and> (\<exists>d. expiration_date b = Some d \<and> d \<le> c)) (stock_batches db p)"
  unfolding expiring_batches_def
  by (rule filter_cong) (auto split: option.splits)

lemma set_expiration_dates:
  "set (expiration_dates bs) = {d. \<exists>b \<in> set bs. expiration_date b = Some d}"
proof (induction bs)
  case Nil
  show ?case by (simp add: expiration_dates_def)
next
  case (Cons b bs)
  then show ?case by (cases "expiration_date b") (auto simp: expiration_dates_def)
qed

lemma sorted_expiration_dates_filter:
  "sorted (expiration_dates bs) \<Longrightarrow> sorted (expiration_dates (filter P bs))"
proof (induction bs)
  case Nil
  then show ?case by simp
next
  case (Cons b bs)
  show ?case
  proof (cases "expiration_date b")
    case None
    with Cons show ?thesis by (simp add: expiration_dates_def)
  next
    case (Some d)
    with Cons.prems have tl: "sorted (expiration_dates bs)"
      and hd: "\<forall>e \<in> set (expiration_dates bs). d \<le> e"
      by (simp_all add: expiration_dates_def)
    have "set (expiration_dates (filter P bs)) \<subseteq> set (expiration_dates bs)"
      by (auto simp: set_expiration_dates)
    with hd have "\<forall>e \<in> set (expiration_dates (filter P bs)). d \<le> e" by blast
    with Some Cons.IH[OF tl] show ?thesis by (simp add: expiration_dates_def)
  qed
qed

lemma py_min_Min:
  assumes "xs \<noteq> []"
  shows "py_min xs = Some (Min (set xs))"
proof (cases xs)
  case Nil
  with assms show ?thesis by simp
next
  case (Cons y ys)
  then show ?thesis using Min.set_eq_fold[of y ys] by simp
qed

lemma expiring_dates_nonempty:
  "expiring_batches db c p \<noteq> [] \<Longrightarrow> expiration_dates (expiring_batches db c p) \<noteq> []"
proof -
  assume ne: "expiring_batches db c p \<noteq> []"
  then obtain b where b: "b \<in> set (expiring_batches db c p)" by (cases "expiring_batches db c p") auto
  then obtain d where "expiration_date b = Some d" by (auto simp: expiring_batches_filter)
  with b have "d \<in> set (expiration_dates (expiring_batches db c p))"
    unfolding set_expiration_dates by blast
  then show ?thesis by auto
qed

lemma earliest_expiry_Min:
  "expiring_batches db c p \<noteq> [] \<Longrightarrow>
     earliest_expiry db c p = Some (Min (set (expiration_dates (expiring_batches db c p))))"
  by (simp add: earliest_expiry_def py_min_Min expiring_dates_nonempty)

lemma product_alert_expiration:
  "product_alert db c p = Some row \<Longrightarrow> alert_expiration_date row = earliest_expiry db c p"
  by (auto simp: product_alert_def Let_def split: if_splits)

lemma date_add_days_Inr: "date_add_days d n = Inr c \<Longrightarrow> c = d + n"
  by (auto simp: date_add_days_def split: if_splits)

text \<open>
  Claim C4, as the code has it. The expiring batches of a product are exactly its
  batches with a positive quantity and an expiration date that is set and not after the
  cutoff date, in the order in which the product's batches are stored: nothing sorts
  them, so they are in ascending expiration order when the stored batches are. The
  expiration date of the alert row is the least expiration date among them, and none
  when there are none. The cutoff date is today plus the horizon.
\<close>

theorem expiring_batches_in_storage_order:
  "expiring_batches db c p =
     filter (\<lambda>b. 0 < quantity b \<and> (\<exists>d. expiration_date b = Some d \<and> d \<le> c)) (stock_batches db p)
   \<and> (sorted (expiration_dates (stock_batches db p)) \<longrightarrow>
        sorted (expiration_dates (expiring_batches db c p)))
   \<and> (expiring_batches db c p = [] \<longrightarrow> earliest_expiry db c p = None)
   \<and> (expiring_batches db c p \<noteq> [] \<longrightarrow>
        earliest_expiry db c p = Some (Min (set (expiration_dates (expiring_batches db c p)))))
   \<and> set (expiration_dates (expiring_batches db c p))
        = {d. \<exists>b \<in> set (expiring_batches db c p). expiration_date b = Some d}
   \<and> (\<forall>row. product_alert db c p = Some row \<longrightarrow>
        alert_expiration_date row = earliest_expiry db c p)
   \<and> (date_add_days today horizon_days = Inr c \<longrightarrow> c = today + horizon_days)"
proof -
  have s: "sorted (expiration_dates (stock_batches db p)) \<longrightarrow>
        sorted (expiration_dates (expiring_batches db c p))"
    unfolding expiring_batches_def by (simp add: sorted_expiration_dates_filter)
  have e: "expiring_batches db c p = [] \<longrightarrow> earliest_expiry db c p = None"
    by (simp add: earliest_expiry_def)
  show ?thesis
    using expiring_batches_filter[of db c p] s e earliest_expiry_Min[of db c p]
      set_expiration_dates[of "expiring_batches db c p"]
      product_alert_expiration[of db c p] date_add_days_Inr[of today horizon_days c]
    by blast
qed

theorem expiring_batches_in_storage_order_witness:
  "sorted (expiration_dates (stock_batches scenario_db product_P))
   \<and> date_add_days 738869 30 = Inr 738899
   \<and> expiring_batches scenario_db 738899 product_P = [batch_B1]
   \<and> earliest_expiry scenario_db 738899 product_P = Some 738886
   \<and> (\<exists>row. product_alert scenario_db 738899 product_P = Some row
         \<and> alert_expiration_date row = Some 738886)
   \<and> date_add_days 738869 7 = Inr 738876
   \<and> expiring_batches scenario_db 738876 product_P = []
   \<and> earliest_expiry scenario_db 738876 product_P = None
   \<and> expiring_batches scenario_db 739234 product_P = [batch_B1, batch_B2]
   \<and> earliest_expiry scenario_db 739234 product_P = Some 738886"
  using expiring_batches_in_storage_order[of scenario_db 738899 product_P 738869 30]
    expiring_batches_in_storage_order[of scenario_db 738876 product_P 738869 7]
    expiring_batches_in_storage_order[of scenario_db 739234 product_P 738869 365]
  by (simp add: expiring_batches_def stock_batches_def scenario_db_def
      product_P_def batch_B1_def batch_B2_def expiration_dates_def date_add_days_def
      MAX_DELTA_DAYS_def MINORDINAL_def MAXORDINAL_def product_alert_def alert_status_def
      low_stock_status_def earliest_expiry_def Let_def)

text \<open>
  With the later expiring batch stored first and both batches inside a horizon of 365
  days, the result is not in ascending expiration order.
\<close>

theorem expiring_batches_not_sorted:
  "\<not> sorted (expiration_dates (expiring_batches late_first_db (738869 + 365) product_P))"
  by (simp add: expiring_batches_def stock_batches_def late_first_db_def scenario_db_def
      product_P_def batch_B1_def batch_B2_def expiration_dates_def)

section \<open>Properties of the sales reports\<close>

text \<open>
  Claim C7. The detailed sales transaction report returns what the sales performance
  report returns on the same arguments, read at the same time.
\<close>

theorem detailed_report_is_sales_report:
  "detailed_sales_transaction_report db today start_date end_date
     = sales_performance_report db today start_date end_date"
  by (simp add: detailed_sales_transaction_report_def)

theorem detailed_report_is_sales_report_witness:
  "\<exists>rep. detailed_sales_transaction_report scenario_db 738869 None None = Inr rep
     \<and> map row_sale_id (rows rep) = [2, 1, 1]
     \<and> summary rep = \<lparr>total_income = 35 / 4, total_quantity_sold = 7, total_transactions = 2\<rparr>
     \<and> date_range rep = (738839, 738869)"
  using detailed_report_is_sales_report[of scenario_db 738869 None None]
  by (simp add: sales_performance_report_def sales_query_def scenario_db_def product_P_def
      date_add_days_def MAX_DELTA_DAYS_def MINORDINAL_def MAXORDINAL_def midnight_def
      sales_row_of_def py_round2_def py_round_def Let_def)

section \<open>Properties of the base document\<close>

lemma save_keeps_id:
  "doc_id doc = Some i \<Longrightarrow> save doc st = (doc, st\<lparr>mongo_collection := (mongo_collection st)(i \<mapsto> doc)\<rparr>)"
  by (simp add: save_def super_save_def)

lemma save_new:
  assumes "doc_id doc = None"
  shows "save doc st =
           (doc\<lparr>doc_id := Some (current_seq (collection_name_of doc) (mongo_counters st) + 1)\<rparr>,
            \<lparr>mongo_counters =
               (mongo_counters st)(counter_key (collection_name_of doc) \<mapsto>
                  current_seq (collection_name_of doc) (mongo_counters st) + 1),
             mongo_collection =
               (mongo_collection st)(current_seq (collection_name_of doc) (mongo_counters st) + 1 \<mapsto>
                  doc\<lparr>doc_id := Some (current_seq (collection_name_of doc) (mongo_counters st) + 1)\<rparr>)\<rparr>)"
  using assms by (simp add: save_def super_save_def get_next_sequence_def Let_def)

lemma current_seq_update [simp]:
  "current_seq c (cs(counter_key c \<mapsto> n)) = n"
  by (simp add: current_seq_def)

text \<open>
  Claim C10. Saving a document that has no id assigns it the next sequence value of its
  collection: the counter advances by one to that value, the document is stored under
  it, the value is not a key of the collection when the counter has reached every key
  in use, and the next new document of the same class gets the following value, a
  different id. Saving a document whose id is set leaves the id as it is and does not
  touch the counters; saving again keeps the id of the first save.
\<close>

theorem save_id:
  "doc_id (fst (save doc st)) =
     (case doc_id doc of
        None \<Rightarrow> Some (fst (get_next_sequence (collection_name_of doc) (mongo_counters st)))
      | Some i \<Rightarrow> Some i)
   \<and> (doc_id doc \<noteq> None \<longrightarrow>
        doc_id (fst (save doc st)) = doc_id doc
        \<and> mongo_counters (snd (save doc st)) = mongo_counters st)
   \<and> doc_id (fst (save (fst (save doc st)) st')) = doc_id (fst (save doc st))
   \<and> (doc_id doc = None \<longrightarrow>
        doc_id (fst (save doc st))
          = Some (current_seq (collection_name_of doc) (mongo_counters st) + 1)
        \<and> mongo_counters (snd (save doc st))
            = snd (get_next_sequence (collection_name_of doc) (mongo_counters st))
        \<and> current_seq (collection_name_of doc) (mongo_counters (snd (save doc st)))
            = current_seq (collection_name_of doc) (mongo_counters st) + 1
        \<and> mongo_collection (snd (save doc st))
             (current_seq (collection_name_of doc) (mongo_counters st) + 1)
            = Some (fst (save doc st))
        \<and> ((\<forall>i \<in> dom (mongo_collection st).
               i \<le> current_seq (collection_name_of doc) (mongo_counters st)) \<longrightarrow>
             current_seq (collection_name_of doc) (mongo_counters st) + 1
               \<notin> dom (mongo_collection st))
        \<and> (\<forall>doc'. doc_id doc' = None \<and> class_name doc' = class_name doc \<longrightarrow>
              doc_id (fst (save doc' (snd (save doc st))))
                = Some (current_seq (collection_name_of doc) (mongo_counters st) + 2)
              \<and> doc_id (fst (save doc' (snd (save doc st)))) \<noteq> doc_id (fst (save doc st))))"
proof -
  have a: "doc_id (fst (save doc st)) =
     (case doc_id doc of
        None \<Rightarrow> Some (fst (get_next_sequence (collection_name_of doc) (mongo_counters st)))
      | Some i \<Rightarrow> Some i)"
    by (cases "doc_id doc") (simp_all add: save_new save_keeps_id get_next_sequence_def Let_def)
  have b: "doc_id doc \<noteq> None \<longrightarrow>
        doc_id (fst (save doc st)) = doc_id doc
        \<and> mongo_counters (snd (save doc st)) = mongo_counters st"
    by (auto simp: save_keeps_id)
  from a obtain j where j: "doc_id (fst (save doc st)) = Some j"
    by (cases "doc_id doc") auto
  have c: "doc_id (fst (save (fst (save doc st)) st')) = doc_id (fst (save doc st))"
    using save_keeps_id[OF j, of st'] j by simp
  have fresh: "(\<forall>i \<in> dom (mongo_collection st).
               i \<le> current_seq (collection_name_of doc) (mongo_counters st)) \<longrightarrow>
             current_seq (collection_name_of doc) (mongo_counters st) + 1
               \<notin> dom (mongo_collection st)"
  proof (intro impI notI)
    assume h: "\<forall>i \<in> dom (mongo_collection st).
               i \<le> current_seq (collection_name_of doc) (mongo_counters st)"
      and "current_seq (collection_name_of doc) (mongo_counters st) + 1 \<in> dom (mongo_collection st)"
    then have "current_seq (collection_name_of doc) (mongo_counters st) + 1
               \<le> current_seq (collection_name_of doc) (mongo_counters st)"
      by blast
    then show False by simp
  qed
  have d: "doc_id doc = None \<longrightarrow>
        doc_id (fst (save doc st))
          = Some (current_seq (collection_name_of doc) (mongo_counters st) + 1)
        \<and> mongo_counters (snd (save doc st))
            = snd (get_next_sequence (collection_name_of doc) (mongo_counters st))
        \<and> current_seq (collection_name_of doc) (mongo_counters (snd (save doc st)))
            = current_seq (collection_name_of doc) (mongo_counters st) + 1
        \<and> mongo_collection (snd (save doc st))
             (current_seq (collection_name_of doc) (mongo_counters st) + 1)
            = Some (fst (save doc st))"
    by (auto simp: save_new get_next_sequence_def Let_def)
  have e: "doc_id doc = None \<longrightarrow>
        (\<forall>doc'. doc_id doc' = None \<and> class_name doc' = class_name doc \<longrightarrow>
              doc_id (fst (save doc' (snd (save doc st))))
                = Some (current_seq (collection_name_of doc) (mongo_counters st) + 2)
              \<and> doc_id (fst (save doc' (snd (save doc st)))) \<noteq> doc_id (fst (save doc st)))"
  proof (intro impI allI)
    fix doc' :: "'a base_document_scheme"
    assume n: "doc_id doc = None" and n': "doc_id doc' = None \<and> class_name doc' = class_name doc"
    then have same: "collection_name_of doc' = collection_name_of doc"
      by (simp add: collection_name_of_def)
    show "doc_id (fst (save doc' (snd (save doc st))))
                = Some (current_seq (collection_name_of doc) (mongo_counters st) + 2)
              \<and> doc_id (fst (save doc' (snd (save doc st)))) \<noteq> doc_id (fst (save doc st))"
      using n n' by (simp add: save_new same)
  qed
  from a b c d fresh e show ?thesis by blast
qed

lemma unsaved_doc_collection: "collection_name_of unsaved_doc = ''product''"
  by code_simp

theorem save_id_witness:
  "doc_id unsaved_doc = None
   \<and> doc_id (fst (save unsaved_doc empty_mongo)) = Some 1
   \<and> current_seq (collection_name_of unsaved_doc)
        (mongo_counters (snd (save unsaved_doc empty_mongo))) = 1
   \<and> dom (mongo_collection empty_mongo) = {}
   \<and> 1 \<notin> dom (mongo_collection empty_mongo)
   \<and> doc_id (fst (save unsaved_doc (snd (save unsaved_doc empty_mongo)))) = Some 2
   \<and> doc_id (unsaved_doc\<lparr>doc_id := Some 0\<rparr>) \<noteq> None
   \<and> doc_id (fst (save (unsaved_doc\<lparr>doc_id := Some 0\<rparr>) empty_mongo)) = Some 0
   \<and> mongo_counters (snd (save (unsaved_doc\<lparr>doc_id := Some 0\<rparr>) empty_mongo)) = Map.empty"
proof -
  have c0: "current_seq (collection_name_of unsaved_doc) (mongo_counters empty_mongo) = 0"
    by (simp add: unsaved_doc_collection empty_mongo_def current_seq_def counter_key_def
        initial_seq_def)
  have n: "doc_id unsaved_doc = None" "class_name unsaved_doc = class_name unsaved_doc"
    by (simp_all add: unsaved_doc_def)
  have s: "doc_id (unsaved_doc\<lparr>doc_id := Some 0\<rparr>) \<noteq> None" by simp
  have d: "dom (mongo_collection empty_mongo) = {}" by (simp add: empty_mongo_def)
  have m: "mongo_counters empty_mongo = Map.empty" by (simp add: empty_mongo_def)
  from save_id[of unsaved_doc empty_mongo empty_mongo]
    save_id[of "unsaved_doc\<lparr>doc_id := Some 0\<rparr>" empty_mongo empty_mongo]
    n s d m c0
  show ?thesis by (simp add: get_next_sequence_def Let_def)
qed

section \<open>Properties of rounding\<close>

lemma py_round_error: "\<bar>of_int (py_round y) - y\<bar> \<le> 1 / 2"
proof -
  define f where "f = \<lfloor>y\<rfloor>"
  define d where "d = y - of_int f"
  have d0: "0 \<le> d" and d1: "d < 1"
    unfolding d_def f_def by linarith+
  have y: "y = of_int f + d" by (simp add: d_def)
  consider "d < 1 / 2" | "1 / 2 < d" | "d = 1 / 2" by linarith
  then show ?thesis
  proof cases
    case 1
    then have "py_round y = f" by (simp add: py_round_def Let_def f_def d_def)
    with 1 d0 y show ?thesis by simp
  next
    case 2
    then have "py_round y = f + 1" by (simp add: py_round_def Let_def f_def d_def)
    with 2 d1 y show ?thesis by simp
  next
    case 3
    then have "py_round y = f \<or> py_round y = f + 1"
      by (simp add: py_round_def Let_def f_def d_def)
    with 3 y show ?thesis by auto
  qed
qed

lemma py_round_of_int: "py_round (of_int k) = k"
  by (simp add: py_round_def Let_def)

lemma py_round2_error: "\<bar>py_round2 x - x\<bar> \<le> 1 / 200"
proof -
  define e where "e = (of_int (py_round (x * 100)) :: rat) - x * 100"
  have e: "\<bar>e\<bar> \<le> 1 / 2" unfolding e_def by (rule py_round_error)
  have "py_round2 x - x = e / 100"
    unfolding py_round2_def e_def by (simp only: diff_divide_distrib)
  then have "\<bar>py_round2 x - x\<bar> = \<bar>e / 100\<bar>" by (rule arg_cong)
  also have "\<dots> = \<bar>e\<bar> / 100" by (simp add: abs_divide)
  also have "\<dots> \<le> (1 / 2) / 100" using e by (rule divide_right_mono) simp
  finally show ?thesis by simp
qed

lemma py_round2_exact: "x * 100 = of_int k \<Longrightarrow> py_round2 x = x"
  by (simp add: py_round2_def py_round_of_int)

lemma py_round2_zero: "py_round2 0 = 0"
  by (simp add: py_round2_def py_round_def)

section \<open>Properties of float rounding\<close>

lemma pow2_pos: "0 < pow2 k"
  by (simp add: pow2_def)

lemma no_overflow: "\<bar>r\<bar> \<le> 1024 \<Longrightarrow> \<not> pow2 1024 \<le> \<bar>r\<bar>"
proof -
  assume a: "\<bar>r\<bar> \<le> 1024"
  have "(1024 :: rat) = 2 ^ 10" by simp
  also have "\<dots> < 2 ^ 1024" by (rule power_strict_increasing) simp_all
  finally have "(1024 :: rat) < pow2 1024" by (simp add: pow2_def)
  with a show ?thesis by linarith
qed

lemma pow2_powi: "pow2 k = 2 powi k"
  by (simp add: pow2_def power_int_def inverse_eq_divide power_one_over)

lemma pow2_mono: "a \<le> b \<Longrightarrow> pow2 a \<le> pow2 b"
  unfolding pow2_powi by (rule power_int_increasing) simp_all

lemma pow2_less_exp: "pow2 a \<le> y \<Longrightarrow> y < pow2 b \<Longrightarrow> a < b"
  using pow2_mono[of b a] by (cases "a < b") auto

lemma pow2_nat: "0 \<le> k \<Longrightarrow> pow2 k = 2 ^ nat k"
  by (simp add: pow2_def)

lemma pow2_neg: "0 \<le> k \<Longrightarrow> pow2 (- k) = 1 / 2 ^ nat k"
  by (cases "k = 0") (simp_all add: pow2_def)

lemma float_exponent_lower:
  assumes "x \<noteq> 0"
  shows "pow2 (float_exponent x) \<le> \<bar>x\<bar>"
proof (cases "1 \<le> \<bar>x\<bar>")
  case True
  define n where "n = \<lfloor>\<bar>x\<bar>\<rfloor>"
  from True have n: "0 < n" unfolding n_def by linarith
  then have b1: "1 \<le> bitlen n" by (simp add: bitlen_alt_def)
  have "(2::int) ^ nat (bitlen n - 1) \<le> n" using bitlen_bounds[OF n] by simp
  then have "(of_int ((2::int) ^ nat (bitlen n - 1)) :: rat) \<le> of_int n" by (simp only: of_int_le_iff)
  also have "\<dots> \<le> \<bar>x\<bar>" unfolding n_def by simp
  finally have "(2::rat) ^ nat (bitlen n - 1) \<le> \<bar>x\<bar>" by simp
  moreover have "float_exponent x = bitlen n - 1"
    using True by (simp add: float_exponent_def Let_def n_def)
  ultimately show ?thesis using b1 by (simp add: pow2_nat)
next
  case False
  with assms have a: "0 < \<bar>x\<bar>" "\<bar>x\<bar> < 1" by simp_all
  define y where "y = 1 / \<bar>x\<bar>"
  from a have y1: "1 < y" unfolding y_def by simp
  define n where "n = \<lceil>y\<rceil> - 1"
  from y1 have n: "0 < n" unfolding n_def by linarith
  have "n < 2 ^ nat (bitlen n)" using bitlen_bounds[OF n] by simp
  then have "\<lceil>y\<rceil> \<le> 2 ^ nat (bitlen n)" unfolding n_def by simp
  then have "y \<le> of_int (2 ^ nat (bitlen n))" by (simp only: ceiling_le_iff)
  then have yb: "y \<le> 2 ^ nat (bitlen n)" by simp
  have "1 / (2::rat) ^ nat (bitlen n) \<le> 1 / y"
    using yb y1 by (intro divide_left_mono) simp_all
  also have "1 / y = \<bar>x\<bar>" using a by (simp add: y_def)
  finally have "1 / (2::rat) ^ nat (bitlen n) \<le> \<bar>x\<bar>" .
  moreover have "float_exponent x = - bitlen n"
    using False by (simp add: float_exponent_def Let_def n_def y_def)
  ultimately show ?thesis using bitlen_nonneg[of n] by (simp add: pow2_neg)
qed

lemma round_to_double_error:
  assumes "\<bar>x\<bar> \<le> 1000"
  shows "\<exists>r. round_to_double x = Finite r \<and> \<bar>r - x\<bar> \<le> 1 / 2 ^ 44"
proof (cases "x = 0")
  case True
  then show ?thesis by (simp add: round_to_double_def)
next
  case False
  define e where "e = max (float_exponent x) (- 1022)"
  define u where "u = pow2 (e - 52)"
  define r where "r = of_int (py_round (x / u)) * u"
  have u0: "0 < u" unfolding u_def by (rule pow2_pos)
  have "pow2 (float_exponent x) \<le> \<bar>x\<bar>" by (rule float_exponent_lower[OF False])
  moreover have "\<bar>x\<bar> < pow2 10" using assms by (simp add: pow2_def)
  ultimately have "float_exponent x < 10" by (rule pow2_less_exp)
  then have "e - 52 \<le> - 43" unfolding e_def by simp
  then have "u \<le> pow2 (- 43)" unfolding u_def by (rule pow2_mono)
  then have u43: "u \<le> 1 / 2 ^ 43" by (simp add: pow2_def)
  have "r - x = (of_int (py_round (x / u)) - x / u) * u"
    using u0 by (simp add: r_def left_diff_distrib)
  then have "\<bar>r - x\<bar> = \<bar>of_int (py_round (x / u)) - x / u\<bar> * u"
    using u0 by (simp add: abs_mult)
  also have "\<dots> \<le> (1 / 2) * u"
    using py_round_error[of "x / u"] u0 by (intro mult_right_mono) simp_all
  also have "\<dots> \<le> (1 / 2) * (1 / 2 ^ 43)" using u43 by simp
  finally have err: "\<bar>r - x\<bar> \<le> 1 / 2 ^ 44" by simp
  have "\<bar>r\<bar> \<le> \<bar>x\<bar> + \<bar>r - x\<bar>" by simp
  with assms err have "\<bar>r\<bar> \<le> 1024" by simp
  then have "\<not> pow2 1024 \<le> \<bar>r\<bar>" by (rule no_overflow)
  then have "round_to_double x = Finite r"
    using False by (simp add: round_to_double_def Let_def e_def u_def r_def)
  with err show ?thesis by blast
qed

lemma percentage_error:
  assumes cs: "0 \<le> cs" "cs \<le> t" and t: "0 < t"
  shows "\<exists>p s. percentage cs t = Inr p \<and> float_round2 p = Finite s
           \<and> \<bar>s - of_int cs / of_int t * 100\<bar> \<le> 1 / 200 + 1 / 2 ^ 30"
proof -
  define d :: rat where "d = 1 / 2 ^ 44"
  have d: "0 \<le> d" "d \<le> 1" "102 * d \<le> 1 / 2 ^ 30" by (simp_all add: d_def)
  define q0 :: rat where "q0 = of_int cs / of_int t"
  have q0: "0 \<le> q0" "q0 \<le> 1" using cs t by (simp_all add: q0_def)
  then have "\<bar>q0\<bar> \<le> 1000" by simp
  from round_to_double_error[OF this] obtain q where
    q: "round_to_double q0 = Finite q" "\<bar>q - q0\<bar> \<le> d" by (auto simp: d_def)
  have div: "py_truediv cs t = Inr q" using t q(1) by (simp add: py_truediv_def q0_def)
  have "\<bar>q * 100\<bar> \<le> 1000" using q(2) q0 d by (simp add: abs_le_iff; linarith)
  from round_to_double_error[OF this] obtain p where
    p: "round_to_double (q * 100) = Finite p" "\<bar>p - q * 100\<bar> \<le> d" by (auto simp: d_def)
  have pct: "percentage cs t = Inr (Finite p)" using t div p(1) by (simp add: percentage_def)
  define r where "r = py_round2 p"
  have r: "\<bar>r - p\<bar> \<le> 1 / 200" unfolding r_def by (rule py_round2_error)
  have "\<bar>r\<bar> \<le> 1000" using r p(2) q(2) q0 d by (simp add: abs_le_iff; linarith)
  from round_to_double_error[OF this] obtain s where
    s: "round_to_double r = Finite s" "\<bar>s - r\<bar> \<le> d" by (auto simp: d_def)
  have rnd: "float_round2 (Finite p) = Finite s" using s(1) by (simp add: float_round2_def r_def)
  have "\<bar>s - q0 * 100\<bar> \<le> 1 / 200 + 102 * d"
    using s(2) r p(2) q(2) by (simp add: abs_le_iff; linarith)
  with d(3) have "\<bar>s - of_int cs / of_int t * 100\<bar> \<le> 1 / 200 + 1 / 2 ^ 30"
    unfolding q0_def by linarith
  with pct rnd show ?thesis by blast
qed

lemma floor_rat_numeral: "\<lfloor>(numeral a / numeral b :: rat)\<rfloor> = numeral a div numeral b"
  by (metis floor_divide_of_int_eq of_int_numeral)

lemma ceiling_rat_numeral:
  "\<lceil>(numeral a / numeral b :: rat)\<rceil> = - ((- numeral a) div numeral b)"
  by (metis ceiling_def divide_minus_left floor_divide_of_int_eq of_int_minus of_int_numeral)

lemma bitlen_values:
  "bitlen 1 = 1" "bitlen 2 = 2" "bitlen 6 = 3" "bitlen 14 = 4" "bitlen 41 = 6" "bitlen 58 = 6"
  by (simp_all add: compute_bitlen[of 1] compute_bitlen[of 2] compute_bitlen[of 3]
      compute_bitlen[of 5] compute_bitlen[of 6] compute_bitlen[of 7] compute_bitlen[of 10]
      compute_bitlen[of 14] compute_bitlen[of 20] compute_bitlen[of 29] compute_bitlen[of 41]
      compute_bitlen[of 58])

lemma round_to_double_eval:
  assumes "x \<noteq> 0" and "float_exponent x = e" and "- 1022 \<le> e"
    and "r = of_int (py_round (x / pow2 (e - 52))) * pow2 (e - 52)"
    and "\<bar>r\<bar> \<le> 1024"
  shows "round_to_double x = Finite r"
  using assms no_overflow[of r] by (simp add: round_to_double_def Let_def max_def)

lemmas float_eval =
  float_exponent_def bitlen_values floor_rat_numeral ceiling_rat_numeral pow2_def
  py_round_def Let_def

text \<open>
  The model on three inputs, step by step: 67 and 93 units of 160 give the floats 41.875
  and 58.12500000000001 and the shares 41.88 and 58.13; 23 units of 160 give
  14.374999999999998 and the share 14.37. Each share is the double nearest to the
  decimal.
\<close>

lemma div_67_160: "py_truediv 67 160 = Inr (7543529375845581 / 18014398509481984)"
proof -
  have "round_to_double (67 / 160) = Finite (7543529375845581 / 18014398509481984)"
    by (rule round_to_double_eval[where e = "- 2"]) (simp_all add: float_eval)
  then show ?thesis by (simp add: py_truediv_def)
qed

lemma percentage_67_160: "percentage 67 160 = Inr (Finite (335 / 8))"
proof -
  have "round_to_double (7543529375845581 / 18014398509481984 * 100) = Finite (335 / 8)"
    by (rule round_to_double_eval[where e = 5]) (simp_all add: float_eval)
  then show ?thesis by (simp add: percentage_def div_67_160)
qed

lemma share_67_160:
  "float_round2 (Finite (335 / 8)) = Finite (5894086012321137 / 140737488355328)"
proof -
  have r: "py_round2 (335 / 8) = 4188 / 100"
    by (simp add: py_round2_def py_round_def Let_def floor_rat_numeral)
  have "round_to_double (4188 / 100) = Finite (5894086012321137 / 140737488355328)"
    by (rule round_to_double_eval[where e = 5]) (simp_all add: float_eval)
  then show ?thesis by (simp add: float_round2_def r)
qed

lemma div_93_160: "py_truediv 93 160 = Inr (2617717283409101 / 4503599627370496)"
proof -
  have "round_to_double (93 / 160) = Finite (2617717283409101 / 4503599627370496)"
    by (rule round_to_double_eval[where e = "- 1"]) (simp_all add: float_eval)
  then show ?thesis by (simp add: py_truediv_def)
qed

lemma percentage_93_160:
  "percentage 93 160 = Inr (Finite (8180366510653441 / 140737488355328))"
proof -
  have "round_to_double (2617717283409101 / 4503599627370496 * 100)
        = Finite (8180366510653441 / 140737488355328)"
    by (rule round_to_double_eval[where e = 5]) (simp_all add: float_eval)
  then show ?thesis by (simp add: percentage_def div_93_160)
qed

lemma share_93_160:
  "float_round2 (Finite (8180366510653441 / 140737488355328))
     = Finite (8181070198095217 / 140737488355328)"
proof -
  have r: "py_round2 (8180366510653441 / 140737488355328) = 5813 / 100"
    by (simp add: py_round2_def py_round_def Let_def floor_rat_numeral)
  have "round_to_double (5813 / 100) = Finite (8181070198095217 / 140737488355328)"
    by (rule round_to_double_eval[where e = 5]) (simp_all add: float_eval)
  then show ?thesis by (simp add: float_round2_def r)
qed

lemma div_23_160: "py_truediv 23 160 = Inr (2589569785738035 / 18014398509481984)"
proof -
  have "round_to_double (23 / 160) = Finite (2589569785738035 / 18014398509481984)"
    by (rule round_to_double_eval[where e = "- 3"]) (simp_all add: float_eval)
  then show ?thesis by (simp add: py_truediv_def)
qed

lemma percentage_23_160:
  "percentage 23 160 = Inr (Finite (8092405580431359 / 562949953421312))"
proof -
  have "round_to_double (2589569785738035 / 18014398509481984 * 100)
        = Finite (8092405580431359 / 562949953421312)"
    by (rule round_to_double_eval[where e = 3]) (simp_all add: float_eval)
  then show ?thesis by (simp add: percentage_def div_23_160)
qed

lemma share_23_160:
  "float_round2 (Finite (8092405580431359 / 562949953421312))
     = round_to_double (1437 / 100)"
  "round_to_double (1437 / 100) = Finite (8089590830664253 / 562949953421312)"
proof -
  have r: "py_round2 (8092405580431359 / 562949953421312) = 1437 / 100"
    by (simp add: py_round2_def py_round_def Let_def floor_rat_numeral)
  show "round_to_double (1437 / 100) = Finite (8089590830664253 / 562949953421312)"
    by (rule round_to_double_eval[where e = 3]) (simp_all add: float_eval)
  show "float_round2 (Finite (8092405580431359 / 562949953421312))
     = round_to_double (1437 / 100)"
    by (simp add: float_round2_def r)
qed

section \<open>Properties of the category distribution report\<close>

lemma percentage_no_zero_division: "percentage cs t \<noteq> Inl ZeroDivisionError"
  by (auto simp: percentage_def py_truediv_def split: py_float.splits)

lemma category_entry_cases:
  "(\<exists>e. percentage (category_stock db c) t = Inl e \<and> category_entry db t c = Inl e)
   \<or> (\<exists>p. percentage (category_stock db c) t = Inr p
          \<and> category_entry db t c =
              Inr \<lparr>row_category_id = category_id c,
                   row_category_name = category_name c,
                   number_of_products = length (category_products db c),
                   total_stock_quantity = category_stock db c,
                   percentage_share = float_round2 p\<rparr>)"
  by (cases "percentage (category_stock db c) t") (simp_all add: category_entry_def Let_def)

lemma mapM_Inl: "mapM f xs = Inl e \<Longrightarrow> \<exists>x \<in> set xs. f x = Inl e"
  by (induction xs) (auto split: sum.splits)

lemma mapM_Inr: "(\<And>x. x \<in> set xs \<Longrightarrow> f x = Inr (g x)) \<Longrightarrow> mapM f xs = Inr (map g xs)"
  by (induction xs) simp_all

lemma mapM_Inr_nth:
  "mapM f xs = Inr ys \<Longrightarrow> length ys = length xs \<and> (\<forall>i < length xs. f (xs ! i) = Inr (ys ! i))"
proof (induction xs arbitrary: ys)
  case Nil
  then show ?case by simp
next
  case (Cons x xs)
  then obtain y zs where y: "f x = Inr y" and zs: "mapM f xs = Inr zs" and ys: "ys = y # zs"
    by (auto split: sum.splits)
  from Cons.IH[OF zs] y ys show ?case by (auto simp: nth_Cons split: nat.splits)
qed

lemma report_cases:
  "(\<exists>e. mapM (category_entry db (all_categories_stock db)) (category_table db) = Inl e
        \<and> category_distribution_report db = Inl e)
   \<or> (\<exists>data. mapM (category_entry db (all_categories_stock db)) (category_table db) = Inr data
          \<and> category_distribution_report db =
              Inr \<lparr>report_id = 2, report_name = ''Category Distribution Report'',
                   rows = data,
                   summary = \<lparr>total_categories = length (category_table db),
                              total_stock = all_categories_stock db\<rparr>\<rparr>)"
  by (cases "mapM (category_entry db (all_categories_stock db)) (category_table db)")
     (simp_all add: category_distribution_report_def Let_def)

lemma report_no_zero_division: "category_distribution_report db \<noteq> Inl ZeroDivisionError"
proof
  assume "category_distribution_report db = Inl ZeroDivisionError"
  with report_cases[of db]
  have "mapM (category_entry db (all_categories_stock db)) (category_table db) = Inl ZeroDivisionError"
    by auto
  then obtain c where "category_entry db (all_categories_stock db) c = Inl ZeroDivisionError"
    by (auto dest: mapM_Inl)
  with category_entry_cases[of db c "all_categories_stock db"]
  have "percentage (category_stock db c) (all_categories_stock db) = Inl ZeroDivisionError" by auto
  then show False by (simp add: percentage_no_zero_division)
qed

lemma report_shares:
  assumes "category_distribution_report db = Inr rep"
  shows "length (rows rep) = length (category_table db)
         \<and> total_stock (summary rep) = all_categories_stock db
         \<and> (\<forall>i < length (category_table db).
               \<exists>p. percentage (category_stock db (category_table db ! i)) (all_categories_stock db) = Inr p
                    \<and> percentage_share (rows rep ! i) = float_round2 p)"
proof -
  from assms report_cases[of db] obtain data where
    m: "mapM (category_entry db (all_categories_stock db)) (category_table db) = Inr data"
    and rep: "rep = \<lparr>report_id = 2, report_name = ''Category Distribution Report'',
                   rows = data,
                   summary = \<lparr>total_categories = length (category_table db),
                              total_stock = all_categories_stock db\<rparr>\<rparr>"
    by auto
  from mapM_Inr_nth[OF m] have len: "length data = length (category_table db)"
    and nth: "\<forall>i < length (category_table db).
        category_entry db (all_categories_stock db) (category_table db ! i) = Inr (data ! i)"
    by simp_all
  have "\<forall>i < length (category_table db).
               \<exists>p. percentage (category_stock db (category_table db ! i)) (all_categories_stock db) = Inr p
                    \<and> percentage_share (data ! i) = float_round2 p"
  proof (intro allI impI)
    fix i assume "i < length (category_table db)"
    with nth have e: "category_entry db (all_categories_stock db) (category_table db ! i) = Inr (data ! i)"
      by simp
    with category_entry_cases[of db "category_table db ! i" "all_categories_stock db"]
    show "\<exists>p. percentage (category_stock db (category_table db ! i)) (all_categories_stock db) = Inr p
                    \<and> percentage_share (data ! i) = float_round2 p"
      by auto
  qed
  with len show ?thesis by (simp add: rep)
qed

lemma zero_total_report:
  assumes "all_categories_stock db \<le> 0"
  shows "\<exists>rep. category_distribution_report db = Inr rep
           \<and> (\<forall>r \<in> set (rows rep). percentage_share r = Finite 0)"
proof -
  have z: "float_round2 (Finite 0) = Finite 0"
    by (simp add: float_round2_def py_round2_zero round_to_double_def)
  have "mapM (category_entry db (all_categories_stock db)) (category_table db)
        = Inr (map (\<lambda>c. \<lparr>row_category_id = category_id c,
                   row_category_name = category_name c,
                   number_of_products = length (category_products db c),
                   total_stock_quantity = category_stock db c,
                   percentage_share = Finite 0\<rparr>) (category_table db))"
    using assms by (intro mapM_Inr) (simp add: category_entry_def percentage_def Let_def z)
  then show ?thesis by (auto simp: category_distribution_report_def Let_def)
qed

lemma sum_list_nested:
  fixes f :: "'b \<Rightarrow> int"
  shows "sum_list (concat (map (\<lambda>c. map f (g c)) cs)) = sum_list (map (\<lambda>c. sum_list (map f (g c))) cs)"
  by (induction cs) simp_all

lemma all_categories_stock_sum:
  "all_categories_stock db = sum_list (map (category_stock db) (category_table db))"
proof -
  have "category_stock db = (\<lambda>c. sum_list (map (batch_quantity_sum db) (category_products db c)))"
    by (simp add: fun_eq_iff category_stock_def)
  then show ?thesis
    unfolding all_categories_stock_def by (simp add: sum_list_nested)
qed

lemma sum_list_shares:
  fixes t :: rat
  shows "sum_list (map (\<lambda>c. of_int (f c) / t * 100) cs) = of_int (sum_list (map f cs)) / t * 100"
  by (induction cs) (simp_all add: add_divide_distrib distrib_right)

lemma exact_shares_sum:
  assumes "0 < all_categories_stock db"
  shows "sum_list (map (\<lambda>c. of_int (category_stock db c) / of_int (all_categories_stock db) * 100)
            (category_table db)) = (100 :: rat)"
proof -
  have "sum_list (map (\<lambda>c. of_int (category_stock db c) / of_int (all_categories_stock db) * 100)
            (category_table db))
        = (of_int (all_categories_stock db) / of_int (all_categories_stock db) * 100 :: rat)"
    by (simp only: sum_list_shares all_categories_stock_sum[symmetric])
  also have "\<dots> = 100" using assms by simp
  finally show ?thesis .
qed

lemma category_stock_nonneg:
  assumes "list_all (\<lambda>b. 0 \<le> quantity b) (stock_batch_table db)"
  shows "0 \<le> category_stock db c"
proof -
  have "\<And>p. 0 \<le> batch_quantity_sum db p"
    using assms
    by (auto simp: batch_quantity_sum_def stock_batches_def list_all_iff intro!: sum_list_nonneg)
  then show ?thesis by (auto simp: category_stock_def intro!: sum_list_nonneg)
qed

lemma member_le_sum_list_int:
  fixes f :: "'a \<Rightarrow> int"
  shows "(\<And>x. x \<in> set xs \<Longrightarrow> 0 \<le> f x) \<Longrightarrow> c \<in> set xs \<Longrightarrow> f c \<le> sum_list (map f xs)"
proof (induction xs)
  case Nil
  then show ?case by simp
next
  case (Cons x xs)
  have nn: "0 \<le> sum_list (map f xs)" using Cons.prems(1) by (auto intro!: sum_list_nonneg)
  show ?case
  proof (cases "c = x")
    case True
    with nn show ?thesis by simp
  next
    case False
    with Cons have "f c \<le> sum_list (map f xs)" by simp
    moreover have "0 \<le> f x" using Cons.prems(1) by simp
    ultimately show ?thesis by simp
  qed
qed

lemma sum_list_abs_diff:
  fixes f g :: "'a \<Rightarrow> rat"
  shows "(\<And>x. x \<in> set xs \<Longrightarrow> \<bar>f x - g x\<bar> \<le> e) \<Longrightarrow>
     \<bar>sum_list (map f xs) - sum_list (map g xs)\<bar> \<le> of_nat (length xs) * e"
proof (induction xs)
  case Nil
  show ?case by simp
next
  case (Cons x xs)
  have "\<bar>sum_list (map f (x # xs)) - sum_list (map g (x # xs))\<bar>
        = \<bar>(f x - g x) + (sum_list (map f xs) - sum_list (map g xs))\<bar>"
    by simp
  also have "\<dots> \<le> \<bar>f x - g x\<bar> + \<bar>sum_list (map f xs) - sum_list (map g xs)\<bar>"
    by (rule abs_triangle_ineq)
  also have "\<dots> \<le> e + of_nat (length xs) * e"
    using Cons.prems[of x] Cons.IH Cons.prems by (intro add_mono) simp_all
  also have "\<dots> = of_nat (length (x # xs)) * e"
    by (simp add: distrib_right)
  finally show ?case .
qed

lemma positive_total_report:
  assumes nonneg: "list_all (\<lambda>b. 0 \<le> quantity b) (stock_batch_table db)"
    and pos: "0 < all_categories_stock db"
  shows "\<exists>rep shares. category_distribution_report db = Inr rep
           \<and> map percentage_share (rows rep) = map Finite shares
           \<and> length shares = length (category_table db)
           \<and> (\<forall>i < length shares.
                 \<bar>shares ! i - of_int (category_stock db (category_table db ! i))
                                / of_int (all_categories_stock db) * 100\<bar>
                 \<le> 1 / 200 + 1 / 2 ^ 30)
           \<and> \<bar>sum_list shares - 100\<bar>
               \<le> of_nat (length (category_table db)) * (1 / 200 + 1 / 2 ^ 30)"
proof -
  let ?t = "all_categories_stock db"
  let ?exact = "\<lambda>c. (of_int (category_stock db c) / of_int ?t * 100 :: rat)"
  have bound: "\<forall>c \<in> set (category_table db). \<exists>s. \<exists>p.
        percentage (category_stock db c) ?t = Inr p \<and> float_round2 p = Finite s
        \<and> \<bar>s - ?exact c\<bar> \<le> 1 / 200 + 1 / 2 ^ 30"
  proof
    fix c assume c: "c \<in> set (category_table db)"
    have lo: "0 \<le> category_stock db c" by (rule category_stock_nonneg[OF nonneg])
    have "category_stock db c \<le> sum_list (map (category_stock db) (category_table db))"
      using c by (intro member_le_sum_list_int) (simp_all add: category_stock_nonneg[OF nonneg])
    then have hi: "category_stock db c \<le> ?t" by (simp add: all_categories_stock_sum)
    from percentage_error[OF lo hi pos]
    show "\<exists>s. \<exists>p. percentage (category_stock db c) ?t = Inr p \<and> float_round2 p = Finite s
        \<and> \<bar>s - ?exact c\<bar> \<le> 1 / 200 + 1 / 2 ^ 30"
      by blast
  qed
  from bchoice[OF bound] obtain sh where sh: "\<forall>c \<in> set (category_table db). \<exists>p.
        percentage (category_stock db c) ?t = Inr p \<and> float_round2 p = Finite (sh c)
        \<and> \<bar>sh c - ?exact c\<bar> \<le> 1 / 200 + 1 / 2 ^ 30"
    by blast
  define entry where
    "entry = (\<lambda>c. \<lparr>row_category_id = category_id c,
                   row_category_name = category_name c,
                   number_of_products = length (category_products db c),
                   total_stock_quantity = category_stock db c,
                   percentage_share = Finite (sh c)\<rparr>)"
  define rep :: "(category_row, category_summary) report" where
    "rep = \<lparr>report_id = 2, report_name = ''Category Distribution Report'',
            rows = map entry (category_table db),
            summary = \<lparr>total_categories = length (category_table db),
                       total_stock = ?t\<rparr>\<rparr>"
  have "mapM (category_entry db ?t) (category_table db) = Inr (map entry (category_table db))"
  proof (rule mapM_Inr)
    fix c assume "c \<in> set (category_table db)"
    with sh obtain p where "percentage (category_stock db c) ?t = Inr p" "float_round2 p = Finite (sh c)"
      by blast
    then show "category_entry db ?t c = Inr (entry c)"
      by (simp add: category_entry_def Let_def entry_def)
  qed
  then have run: "category_distribution_report db = Inr rep"
    by (simp add: category_distribution_report_def Let_def rep_def)
  define shares where "shares = map sh (category_table db)"
  have m: "map percentage_share (rows rep) = map Finite shares"
    by (simp add: rep_def entry_def shares_def comp_def)
  have len: "length shares = length (category_table db)" by (simp add: shares_def)
  have each: "\<forall>i < length shares.
                 \<bar>shares ! i - ?exact (category_table db ! i)\<bar> \<le> 1 / 200 + 1 / 2 ^ 30"
    using sh by (auto simp: shares_def)
  have "\<bar>sum_list (map sh (category_table db)) - sum_list (map ?exact (category_table db))\<bar>
        \<le> of_nat (length (category_table db)) * (1 / 200 + 1 / 2 ^ 30)"
    using sh by (intro sum_list_abs_diff) blast
  then have total: "\<bar>sum_list shares - 100\<bar>
               \<le> of_nat (length (category_table db)) * (1 / 200 + 1 / 2 ^ 30)"
    by (simp only: exact_shares_sum[OF pos] shares_def)
  from run m len each total show ?thesis by blast
qed

text \<open>
  Claim C5. The category distribution report never divides by zero. The share of each
  category is \<^verbatim>\<open>category_stock / total_stock * 100\<close>, computed in floats and
  rounded to two decimals, when the total stock is positive, and 0 otherwise, so with a
  total of 0 every share is 0. With a positive total the exact shares sum to 100; when
  no batch quantity is negative, each share of the report lies within half a hundredth
  and a float error of at most \<open>1 / 2 ^ 30\<close> of its exact value, and the shares of the
  report sum to 100 up to that much for each category.
\<close>

theorem category_shares:
  "category_distribution_report db \<noteq> Inl ZeroDivisionError
   \<and> (\<forall>rep. category_distribution_report db = Inr rep \<longrightarrow>
         length (rows rep) = length (category_table db)
         \<and> total_stock (summary rep) = all_categories_stock db
         \<and> (\<forall>i < length (category_table db).
               \<exists>p. percentage (category_stock db (category_table db ! i))
                      (all_categories_stock db) = Inr p
                    \<and> percentage_share (rows rep ! i) = float_round2 p))
   \<and> (all_categories_stock db \<le> 0 \<longrightarrow>
         (\<exists>rep. category_distribution_report db = Inr rep
            \<and> (\<forall>r \<in> set (rows rep). percentage_share r = Finite 0)))
   \<and> (0 < all_categories_stock db \<longrightarrow>
         sum_list (map (\<lambda>c. of_int (category_stock db c) / of_int (all_categories_stock db) * 100)
            (category_table db)) = (100 :: rat))
   \<and> (list_all (\<lambda>b. 0 \<le> quantity b) (stock_batch_table db) \<and> 0 < all_categories_stock db \<longrightarrow>
         (\<exists>rep shares. category_distribution_report db = Inr rep
            \<and> map percentage_share (rows rep) = map Finite shares
            \<and> length shares = length (category_table db)
            \<and> (\<forall>i < length shares.
                  \<bar>shares ! i - of_int (category_stock db (category_table db ! i))
                                 / of_int (all_categories_stock db) * 100\<bar>
                  \<le> 1 / 200 + 1 / 2 ^ 30)
            \<and> \<bar>sum_list shares - 100\<bar>
                \<le> of_nat (length (category_table db)) * (1 / 200 + 1 / 2 ^ 30)))"
  using report_no_zero_division[of db] report_shares[of db] zero_total_report[of db]
    exact_shares_sum[of db] positive_total_report[of db]
  by blast

lemma shares_db_stock:
  "all_categories_stock shares_db = 160"
  "category_table shares_db =
     [\<lparr>category_id = 1, category_name = ''Dairy''\<rparr>,
      \<lparr>category_id = 2, category_name = ''Bakery''\<rparr>]"
  "category_stock shares_db \<lparr>category_id = 1, category_name = ''Dairy''\<rparr> = 67"
  "category_stock shares_db \<lparr>category_id = 2, category_name = ''Bakery''\<rparr> = 93"
  by (simp_all add: all_categories_stock_def category_stock_def category_products_def
      batch_quantity_sum_def stock_batches_def shares_db_def empty_database_def)

lemma shares_db_report:
  "\<exists>rep. category_distribution_report shares_db = Inr rep
     \<and> map percentage_share (rows rep)
         = [Finite (5894086012321137 / 140737488355328),
            Finite (8181070198095217 / 140737488355328)]"
  by (simp add: category_distribution_report_def Let_def shares_db_stock category_entry_def
      percentage_67_160 percentage_93_160 share_67_160 share_93_160)

theorem category_shares_witness:
  "list_all (\<lambda>b. 0 \<le> quantity b) (stock_batch_table shares_db)
   \<and> 0 < all_categories_stock shares_db
   \<and> (\<exists>rep. category_distribution_report shares_db = Inr rep
         \<and> map percentage_share (rows rep)
             = [Finite (5894086012321137 / 140737488355328),
                Finite (8181070198095217 / 140737488355328)])
   \<and> \<bar>(5894086012321137 / 140737488355328 + 8181070198095217 / 140737488355328 :: rat) - 100\<bar>
       \<le> 2 * (1 / 200 + 1 / 2 ^ 30)
   \<and> all_categories_stock empty_database \<le> 0
   \<and> (\<exists>rep. category_distribution_report empty_database = Inr rep \<and> rows rep = [])"
proof -
  have n: "list_all (\<lambda>b. 0 \<le> quantity b) (stock_batch_table shares_db)"
    by (simp add: shares_db_def empty_database_def)
  have t: "0 < all_categories_stock shares_db" by (simp add: shares_db_stock)
  have e: "all_categories_stock empty_database \<le> 0"
    by (simp add: all_categories_stock_def empty_database_def)
  have er: "\<exists>rep. category_distribution_report empty_database = Inr rep \<and> rows rep = []"
    by (simp add: category_distribution_report_def Let_def empty_database_def)
  have b: "\<bar>(5894086012321137 / 140737488355328 + 8181070198095217 / 140737488355328 :: rat) - 100\<bar>
       \<le> 2 * (1 / 200 + 1 / 2 ^ 30)"
    by simp
  from category_shares[of shares_db] category_shares[of empty_database] n t e er b
    shares_db_report
  show ?thesis by simp
qed

section \<open>Properties of the sales performance summary\<close>

lemma sales_rows_fields:
  "total_price \<circ> sales_row_of = r_line_total"
  "quantity_sold \<circ> sales_row_of = r_quantity"
  "row_sale_id ` sales_row_of ` A = r_sale_id ` A"
  by (auto simp: sales_row_of_def fun_eq_iff image_iff)

lemma sales_report_total:
  assumes "start_date \<noteq> None \<or> (31 \<le> today \<and> today \<le> MAXORDINAL + 30)"
  shows "\<exists>rep. sales_performance_report db today start_date end_date = Inr rep"
proof (cases start_date)
  case None
  with assms have "date_add_days today (- 30) = Inr (today - 30)"
    by (simp add: date_add_days_def MAX_DELTA_DAYS_def MINORDINAL_def MAXORDINAL_def)
  with None show ?thesis by (simp add: sales_performance_report_def Let_def)
next
  case (Some d)
  then show ?thesis by (simp add: sales_performance_report_def Let_def)
qed

lemma sales_report_summary:
  assumes "sales_performance_report db today start_date end_date = Inr rep"
  shows "total_income (summary rep) = py_round2 (sum_list (map total_price (rows rep)))"
    and "total_quantity_sold (summary rep) = sum_list (map quantity_sold (rows rep))"
    and "total_transactions (summary rep) = card (row_sale_id ` set (rows rep))"
proof -
  from assms obtain s where
    rep: "rep = \<lparr>report_id = 1, report_name = ''Sales Performance Report'',
             rows = map sales_row_of (sales_query db s (case end_date of None \<Rightarrow> today | Some d \<Rightarrow> d)),
             summary = \<lparr>total_income = py_round2 (sum_list (map r_line_total
                           (sales_query db s (case end_date of None \<Rightarrow> today | Some d \<Rightarrow> d)))),
                        total_quantity_sold = sum_list (map r_quantity
                           (sales_query db s (case end_date of None \<Rightarrow> today | Some d \<Rightarrow> d))),
                        total_transactions = card (set (map r_sale_id
                           (sales_query db s (case end_date of None \<Rightarrow> today | Some d \<Rightarrow> d))))\<rparr>,
             date_range = (s, (case end_date of None \<Rightarrow> today | Some d \<Rightarrow> d))\<rparr>"
    by (auto simp: sales_performance_report_def Let_def split: sum.splits)
  show "total_income (summary rep) = py_round2 (sum_list (map total_price (rows rep)))"
    by (simp add: rep sales_rows_fields)
  show "total_quantity_sold (summary rep) = sum_list (map quantity_sold (rows rep))"
    by (simp add: rep sales_rows_fields)
  show "total_transactions (summary rep) = card (row_sale_id ` set (rows rep))"
    by (simp add: rep sales_rows_fields)
qed

text \<open>
  Claim C6. The report is produced for every explicit start date, and for an omitted one
  whenever thirty days before today is a date. Its summary is computed from the rows of
  the same report: \<^verbatim>\<open>total_income\<close> is the sum of their line totals rounded to two
  decimals (so it is within half a hundredth of the sum, and is the sum itself when that
  is an amount in hundredths), \<^verbatim>\<open>total_quantity_sold\<close> is the sum of their
  quantities and \<^verbatim>\<open>total_transactions\<close> the number of distinct sale ids among
  them.
\<close>

theorem sales_summary_matches_rows:
  "(start_date \<noteq> None \<or> (31 \<le> today \<and> today \<le> MAXORDINAL + 30) \<longrightarrow>
      (\<exists>rep. sales_performance_report db today start_date end_date = Inr rep))
   \<and> (\<forall>rep. sales_performance_report db today start_date end_date = Inr rep \<longrightarrow>
        total_income (summary rep) = py_round2 (sum_list (map total_price (rows rep)))
        \<and> \<bar>total_income (summary rep) - sum_list (map total_price (rows rep))\<bar> \<le> 1 / 200
        \<and> ((\<exists>k. sum_list (map total_price (rows rep)) * 100 = of_int k) \<longrightarrow>
             total_income (summary rep) = sum_list (map total_price (rows rep)))
        \<and> total_quantity_sold (summary rep) = sum_list (map quantity_sold (rows rep))
        \<and> total_transactions (summary rep) = card (row_sale_id ` set (rows rep)))"
proof (intro conjI allI impI)
  assume "start_date \<noteq> None \<or> (31 \<le> today \<and> today \<le> MAXORDINAL + 30)"
  then show "\<exists>rep. sales_performance_report db today start_date end_date = Inr rep"
    by (rule sales_report_total)
next
  fix rep
  assume r: "sales_performance_report db today start_date end_date = Inr rep"
  show "total_income (summary rep) = py_round2 (sum_list (map total_price (rows rep)))"
    by (rule sales_report_summary(1)[OF r])
  show "\<bar>total_income (summary rep) - sum_list (map total_price (rows rep))\<bar> \<le> 1 / 200"
    unfolding sales_report_summary(1)[OF r] by (rule py_round2_error)
  show "total_quantity_sold (summary rep) = sum_list (map quantity_sold (rows rep))"
    by (rule sales_report_summary(2)[OF r])
  show "total_transactions (summary rep) = card (row_sale_id ` set (rows rep))"
    by (rule sales_report_summary(3)[OF r])
next
  fix rep
  assume r: "sales_performance_report db today start_date end_date = Inr rep"
    and "\<exists>k. sum_list (map total_price (rows rep)) * 100 = of_int k"
  then obtain k where "sum_list (map total_price (rows rep)) * 100 = of_int k" by blast
  then have "py_round2 (sum_list (map total_price (rows rep))) = sum_list (map total_price (rows rep))"
    by (rule py_round2_exact)
  with sales_report_summary(1)[OF r]
  show "total_income (summary rep) = sum_list (map total_price (rows rep))" by simp
qed


theorem sales_summary_matches_rows_witness:
  "(31 \<le> (738869::int) \<and> 738869 \<le> MAXORDINAL + 30)
   \<and> (\<exists>rep. sales_performance_report scenario_db 738869 None None = Inr rep
         \<and> map total_price (rows rep) = [5, 5 / 2, 5 / 4]
         \<and> (\<exists>k. sum_list (map total_price (rows rep)) * 100 = of_int k)
         \<and> total_income (summary rep) = 35 / 4
         \<and> total_quantity_sold (summary rep) = 7
         \<and> total_transactions (summary rep) = 2)"
proof -
  have k: "(35 / 4 :: rat) * 100 = of_int 875" by simp
  obtain rep where rep: "sales_performance_report scenario_db 738869 None None = Inr rep"
    and rows: "map total_price (rows rep) = [5, 5 / 2, 5 / 4]"
    and ids: "map row_sale_id (rows rep) = [2, 1, 1]"
    and qs: "map quantity_sold (rows rep) = [4, 2, 1]"
    by (simp add: sales_performance_report_def sales_query_def scenario_db_def product_P_def
      date_add_days_def MAX_DELTA_DAYS_def MINORDINAL_def MAXORDINAL_def midnight_def
      sales_row_of_def Let_def)
  have s: "sum_list (map total_price (rows rep)) = 35 / 4" by (simp add: rows)
  have ex: "\<exists>k. sum_list (map total_price (rows rep)) * 100 = of_int k"
    unfolding s using k by blast
  have "row_sale_id ` set (rows rep) = set (map row_sale_id (rows rep))" by simp
  then have c: "card (row_sale_id ` set (rows rep)) = 2" by (simp only: ids) simp
  show ?thesis
    using sales_summary_matches_rows[of None 738869 scenario_db None] rep rows ex s c qs
    by (simp add: MAXORDINAL_def)
qed


section \<open>Properties of the batch ledger\<close>

lemma batch_quantity_sum_table:
  "batch_quantity_sum db p = table_quantity (product_id p) (stock_batch_table db)"
  by (simp add: batch_quantity_sum_def stock_batches_def table_quantity_def)

lemma ledger_inv_iff:
  "ledger_inv db \<longleftrightarrow>
     (\<forall>p \<in> set (product_table db).
        stock_level p = table_quantity (product_id p) (stock_batch_table db))
     \<and> (\<forall>b \<in> set (stock_batch_table db). 0 \<le> quantity b)
     \<and> distinct (map batch_id (stock_batch_table db))
     \<and> (\<forall>b \<in> set (stock_batch_table db).
           batch_id b \<le> current_seq ''stockbatch'' (counters db))"
  by (simp add: ledger_inv_def stock_consistent_def list_all_iff batch_quantity_sum_table)

lemma find_batch_Some:
  "find (\<lambda>x. batch_id x = bid) xs = Some b \<Longrightarrow> b \<in> set xs \<and> batch_id b = bid"
  by (induction xs) (auto split: if_splits)

lemma find_put_batch:
  "find (\<lambda>x. batch_id x = batch_id b) (put_batch b xs) = Some b"
  by (induction xs) auto

lemma put_batch_fresh:
  "batch_id b \<notin> batch_id ` set xs \<Longrightarrow> put_batch b xs = xs @ [b]"
  by (induction xs) auto

lemma put_batch_ids:
  "find (\<lambda>x. batch_id x = batch_id b') xs = Some b \<Longrightarrow>
     map batch_id (put_batch b' xs) = map batch_id xs"
  by (induction xs) (auto split: if_splits)

lemma set_put_batch: "set (put_batch b xs) \<subseteq> insert b (set xs)"
  by (induction xs) auto

lemma table_quantity_append:
  "table_quantity pid (xs @ [b]) =
     table_quantity pid xs + (if batch_product_id b = pid then quantity b else 0)"
  by (simp add: table_quantity_def)

lemma table_quantity_replace:
  "find (\<lambda>x. batch_id x = batch_id b') xs = Some b \<Longrightarrow>
   batch_product_id b' = batch_product_id b \<Longrightarrow>
     table_quantity pid (put_batch b' xs) =
       table_quantity pid xs
       + (if batch_product_id b = pid then quantity b' - quantity b else 0)"
  by (induction xs) (auto simp: table_quantity_def split: if_splits)

lemma filter_other_ids:
  "bid \<notin> batch_id ` set xs \<Longrightarrow> filter (\<lambda>x. batch_id x \<noteq> bid) xs = xs"
  by (induction xs) auto

lemma table_quantity_remove:
  "distinct (map batch_id xs) \<Longrightarrow> find (\<lambda>x. batch_id x = bid) xs = Some b \<Longrightarrow>
     table_quantity pid (filter (\<lambda>x. batch_id x \<noteq> bid) xs) =
       table_quantity pid xs - (if batch_product_id b = pid then quantity b else 0)"
proof (induction xs)
  case Nil
  then show ?case by simp
next
  case (Cons x xs)
  show ?case
  proof (cases "batch_id x = bid")
    case True
    with Cons.prems have xb: "x = b" and fresh: "bid \<notin> batch_id ` set xs" by auto
    then show ?thesis using True by (simp add: filter_other_ids table_quantity_def)
  next
    case False
    with Cons show ?thesis by (simp add: table_quantity_def)
  qed
qed

lemma adjust_stock_set:
  "p' \<in> set (adjust_stock pid d ps) \<Longrightarrow>
     \<exists>p \<in> set ps. product_id p' = product_id p
        \<and> stock_level p' = stock_level p + (if product_id p = pid then d else 0)"
  by (auto simp: adjust_stock_def)

lemma other_counter [simp]:
  "current_seq ''stockbatch'' (cs(counter_key ''productlog'' \<mapsto> n)) = current_seq ''stockbatch'' cs"
  by (simp add: current_seq_def counter_key_def)

lemma append_log_frame:
  "stock_batch_table (append_log pid a n db) = stock_batch_table db"
  "product_table (append_log pid a n db) = product_table db"
  "current_seq ''stockbatch'' (counters (append_log pid a n db))
     = current_seq ''stockbatch'' (counters db)"
  by (simp_all add: append_log_def get_next_sequence_def Let_def)

lemma ledger_inv_append_log: "ledger_inv (append_log pid a n db) = ledger_inv db"
  by (simp add: ledger_inv_iff append_log_frame)

lemma add_batch_result:
  assumes "add_batch pid q e r db = Inr (b, db')"
  shows "0 < q"
    and "b = \<lparr>batch_id = current_seq ''stockbatch'' (counters db) + 1, batch_product_id = pid,
              quantity = q, expiration_date = e, reason = r\<rparr>"
    and "stock_batch_table db' = put_batch b (stock_batch_table db)"
    and "product_table db' = adjust_stock pid q (product_table db)"
    and "current_seq ''stockbatch'' (counters db') = current_seq ''stockbatch'' (counters db) + 1"
  using assms
  by (auto simp: add_batch_def get_next_sequence_def Let_def append_log_frame
      split: if_splits)

lemma dispose_result:
  assumes "dispose bid q r db = Inr (b', db')"
  shows "\<exists>b. find_batch bid db = Some b \<and> 0 < q \<and> q \<le> quantity b
           \<and> b' = b\<lparr>quantity := quantity b - q\<rparr>
           \<and> stock_batch_table db' = put_batch b' (stock_batch_table db)
           \<and> product_table db' = adjust_stock (batch_product_id b) (- q) (product_table db)
           \<and> current_seq ''stockbatch'' (counters db') = current_seq ''stockbatch'' (counters db)"
  using assms
  by (auto simp: dispose_def Let_def append_log_frame split: option.splits if_splits)

lemma delete_batch_result:
  assumes "delete_batch bid db = Inr db'"
  shows "\<exists>b. find_batch bid db = Some b \<and> quantity b \<le> 0
           \<and> stock_batch_table db' = filter (\<lambda>x. batch_id x \<noteq> bid) (stock_batch_table db)
           \<and> product_table db' = product_table db
           \<and> current_seq ''stockbatch'' (counters db') = current_seq ''stockbatch'' (counters db)"
  using assms
  by (auto simp: delete_batch_def append_log_frame split: option.splits if_splits)

lemma add_batch_inv:
  assumes inv: "ledger_inv db" and ok: "add_batch pid q e r db = Inr (b, db')"
  shows "ledger_inv db'"
proof -
  note res = add_batch_result[OF ok]
  from inv have stock: "\<forall>p \<in> set (product_table db).
        stock_level p = table_quantity (product_id p) (stock_batch_table db)"
    and nonneg: "\<forall>x \<in> set (stock_batch_table db). 0 \<le> quantity x"
    and dist: "distinct (map batch_id (stock_batch_table db))"
    and bound: "\<forall>x \<in> set (stock_batch_table db).
           batch_id x \<le> current_seq ''stockbatch'' (counters db)"
    by (simp_all add: ledger_inv_iff)
  have bid: "batch_id b = current_seq ''stockbatch'' (counters db) + 1"
    and bq: "quantity b = q" and bp: "batch_product_id b = pid"
    using res(2) by simp_all
  from bound bid have fresh: "batch_id b \<notin> batch_id ` set (stock_batch_table db)" by force
  have tbl: "stock_batch_table db' = stock_batch_table db @ [b]"
    using res(3) put_batch_fresh[OF fresh] by simp
  have "\<forall>p' \<in> set (product_table db').
        stock_level p' = table_quantity (product_id p') (stock_batch_table db')"
  proof
    fix p' assume "p' \<in> set (product_table db')"
    then obtain p where p: "p \<in> set (product_table db)" "product_id p' = product_id p"
      "stock_level p' = stock_level p + (if product_id p = pid then q else 0)"
      using res(4) adjust_stock_set by metis
    with stock show "stock_level p' = table_quantity (product_id p') (stock_batch_table db')"
      by (auto simp: tbl table_quantity_append bq bp)
  qed
  moreover have "\<forall>x \<in> set (stock_batch_table db'). 0 \<le> quantity x"
    using nonneg res(1) bq by (auto simp: tbl)
  moreover have "distinct (map batch_id (stock_batch_table db'))"
    using dist fresh by (simp add: tbl)
  moreover have "\<forall>x \<in> set (stock_batch_table db').
           batch_id x \<le> current_seq ''stockbatch'' (counters db')"
    using bound bid by (auto simp: tbl res(5))
  ultimately show ?thesis by (simp add: ledger_inv_iff)
qed

lemma dispose_inv:
  assumes inv: "ledger_inv db" and ok: "dispose bid q r db = Inr (b', db')"
  shows "ledger_inv db'"
proof -
  from dispose_result[OF ok] obtain b where
    fb: "find (\<lambda>x. batch_id x = bid) (stock_batch_table db) = Some b"
    and q: "0 < q" "q \<le> quantity b"
    and b': "b' = b\<lparr>quantity := quantity b - q\<rparr>"
    and tbl: "stock_batch_table db' = put_batch b' (stock_batch_table db)"
    and prods: "product_table db' = adjust_stock (batch_product_id b) (- q) (product_table db)"
    and seq: "current_seq ''stockbatch'' (counters db') = current_seq ''stockbatch'' (counters db)"
    by (auto simp: find_batch_def)
  from inv have stock: "\<forall>p \<in> set (product_table db).
        stock_level p = table_quantity (product_id p) (stock_batch_table db)"
    and nonneg: "\<forall>x \<in> set (stock_batch_table db). 0 \<le> quantity x"
    and dist: "distinct (map batch_id (stock_batch_table db))"
    and bound: "\<forall>x \<in> set (stock_batch_table db).
           batch_id x \<le> current_seq ''stockbatch'' (counters db)"
    by (simp_all add: ledger_inv_iff)
  from find_batch_Some[OF fb] have bin: "b \<in> set (stock_batch_table db)" and bidb: "batch_id b = bid"
    by simp_all
  have id': "batch_id b' = bid" and p': "batch_product_id b' = batch_product_id b"
    and q': "quantity b' = quantity b - q"
    by (simp_all add: b' bidb)
  have fb': "find (\<lambda>x. batch_id x = batch_id b') (stock_batch_table db) = Some b"
    using fb id' by simp
  have tq: "\<And>pid. table_quantity pid (stock_batch_table db') =
       table_quantity pid (stock_batch_table db)
       + (if batch_product_id b = pid then - q else 0)"
    unfolding tbl using table_quantity_replace[OF fb' p'] by (simp add: q')
  have "\<forall>p' \<in> set (product_table db').
        stock_level p' = table_quantity (product_id p') (stock_batch_table db')"
  proof
    fix pr assume "pr \<in> set (product_table db')"
    then obtain p where p: "p \<in> set (product_table db)" "product_id pr = product_id p"
      "stock_level pr = stock_level p + (if product_id p = batch_product_id b then - q else 0)"
      using prods adjust_stock_set by metis
    with stock show "stock_level pr = table_quantity (product_id pr) (stock_batch_table db')"
      by (auto simp: tq)
  qed
  moreover have "\<forall>x \<in> set (stock_batch_table db'). 0 \<le> quantity x"
  proof
    fix x assume "x \<in> set (stock_batch_table db')"
    then have "x = b' \<or> x \<in> set (stock_batch_table db)"
      using set_put_batch[of b' "stock_batch_table db"] by (auto simp: tbl)
    then show "0 \<le> quantity x" using nonneg q q' by auto
  qed
  moreover have "distinct (map batch_id (stock_batch_table db'))"
    using dist by (simp add: tbl put_batch_ids[OF fb'])
  moreover have "\<forall>x \<in> set (stock_batch_table db').
           batch_id x \<le> current_seq ''stockbatch'' (counters db')"
  proof
    fix x assume "x \<in> set (stock_batch_table db')"
    then have "x = b' \<or> x \<in> set (stock_batch_table db)"
      using set_put_batch[of b' "stock_batch_table db"] by (auto simp: tbl)
    then show "batch_id x \<le> current_seq ''stockbatch'' (counters db')"
      using bound bin id' bidb by (auto simp: seq)
  qed
  ultimately show ?thesis by (simp add: ledger_inv_iff)
qed

lemma delete_batch_inv:
  assumes inv: "ledger_inv db" and ok: "delete_batch bid db = Inr db'"
  shows "ledger_inv db'"
proof -
  from delete_batch_result[OF ok] obtain b where
    fb: "find (\<lambda>x. batch_id x = bid) (stock_batch_table db) = Some b"
    and q: "quantity b \<le> 0"
    and tbl: "stock_batch_table db' = filter (\<lambda>x. batch_id x \<noteq> bid) (stock_batch_table db)"
    and prods: "product_table db' = product_table db"
    and seq: "current_seq ''stockbatch'' (counters db') = current_seq ''stockbatch'' (counters db)"
    by (auto simp: find_batch_def)
  from inv have stock: "\<forall>p \<in> set (product_table db).
        stock_level p = table_quantity (product_id p) (stock_batch_table db)"
    and nonneg: "\<forall>x \<in> set (stock_batch_table db). 0 \<le> quantity x"
    and dist: "distinct (map batch_id (stock_batch_table db))"
    and bound: "\<forall>x \<in> set (stock_batch_table db).
           batch_id x \<le> current_seq ''stockbatch'' (counters db)"
    by (simp_all add: ledger_inv_iff)
  from find_batch_Some[OF fb] nonneg q have q0: "quantity b = 0" by force
  have tq: "\<And>pid. table_quantity pid (stock_batch_table db') = table_quantity pid (stock_batch_table db)"
    unfolding tbl using table_quantity_remove[OF dist fb] by (simp add: q0)
  show ?thesis
    using stock nonneg dist bound
    by (simp add: ledger_inv_iff prods seq tq) (simp add: tbl distinct_map_filter)
qed

lemma commit_inv: "ledger_inv db \<Longrightarrow> ledger_inv (commit op db)"
proof (cases op)
  case (AddBatch pid q e r)
  assume "ledger_inv db"
  then show ?thesis using AddBatch
    by (auto simp: commit_def split: sum.splits dest: add_batch_inv)
next
  case (Dispose bid q r)
  assume "ledger_inv db"
  then show ?thesis using Dispose
    by (auto simp: commit_def split: sum.splits dest: dispose_inv)
next
  case (DeleteBatch bid)
  assume "ledger_inv db"
  then show ?thesis using DeleteBatch
    by (auto simp: commit_def split: sum.splits dest: delete_batch_inv)
qed

lemma run_ops_inv: "ledger_inv db \<Longrightarrow> ledger_inv (run_ops ops db)"
  unfolding run_ops_def by (induction ops arbitrary: db) (simp_all add: commit_inv)

text \<open>A store without batches whose products all have a stock level of 0 satisfies the invariant.\<close>

lemma ledger_inv_initial:
  "stock_batch_table db = [] \<Longrightarrow> list_all (\<lambda>p. stock_level p = 0) (product_table db) \<Longrightarrow>
     ledger_inv db"
  by (simp add: ledger_inv_def stock_consistent_def batch_quantity_sum_def stock_batches_def
      list_all_iff)

text \<open>
  Under the invariant the category distribution report, which sums batch quantities, and
  the alert report, which reads the stock level, see the same stock.
\<close>

lemma category_stock_from_stock_levels:
  assumes "ledger_inv db"
  shows "category_stock db c = sum_list (map stock_level (category_products db c))"
proof -
  from assms have "\<forall>p \<in> set (product_table db). stock_level p = batch_quantity_sum db p"
    by (simp add: ledger_inv_def stock_consistent_def list_all_iff)
  then have "map (batch_quantity_sum db) (category_products db c)
             = map stock_level (category_products db c)"
    by (simp add: category_products_def)
  then show ?thesis unfolding category_stock_def by (rule arg_cong)
qed

text \<open>
  Claim C1. Starting from a state that satisfies the ledger's invariant, after any
  sequence of \<^verbatim>\<open>add_batch\<close>, \<^verbatim>\<open>dispose\<close> and \<^verbatim>\<open>delete_batch\<close> calls,
  failed ones included, the stock level of every product equals the sum of the
  quantities of the product's batches that are still stored, empty batches included.
\<close>

theorem stock_level_is_batch_sum:
  assumes "ledger_inv db" and "p \<in> set (product_table (run_ops ops db))"
  shows "stock_level p = sum_list (map quantity (stock_batches (run_ops ops db) p))"
proof -
  from assms(1) have "ledger_inv (run_ops ops db)" by (rule run_ops_inv)
  then have "stock_consistent (run_ops ops db)" by (simp add: ledger_inv_def)
  with assms(2) show ?thesis
    by (simp add: stock_consistent_def list_all_iff batch_quantity_sum_def)
qed

lemma fresh_db_inv: "ledger_inv fresh_db"
  by (simp add: ledger_inv_def stock_consistent_def fresh_db_def empty_database_def
      batch_quantity_sum_def stock_batches_def)

lemma scenario_run_tables:
  "product_table (run_ops scenario_ops fresh_db) = [product_P\<lparr>stock_level := 3\<rparr>]"
  "stock_batch_table (run_ops scenario_ops fresh_db) = [batch_B2]"
  by (simp_all add: run_ops_def scenario_ops_def commit_def add_batch_def dispose_def
      delete_batch_def fresh_db_def empty_database_def product_P_def batch_B2_def
      product_exists_def find_batch_def adjust_stock_def append_log_def
      get_next_sequence_def current_seq_def counter_key_def initial_seq_def
      seed_counters_def seed_counter_def initial_counters_def Let_def)

theorem stock_level_is_batch_sum_witness:
  "ledger_inv fresh_db
   \<and> product_P\<lparr>stock_level := 3\<rparr> \<in> set (product_table (run_ops scenario_ops fresh_db))
   \<and> stock_batches (run_ops scenario_ops fresh_db) (product_P\<lparr>stock_level := 3\<rparr>) = [batch_B2]
   \<and> stock_level (product_P\<lparr>stock_level := 3\<rparr>)
       = sum_list (map quantity (stock_batches (run_ops scenario_ops fresh_db)
           (product_P\<lparr>stock_level := 3\<rparr>)))"
proof -
  have m: "product_P\<lparr>stock_level := 3\<rparr> \<in> set (product_table (run_ops scenario_ops fresh_db))"
    by (simp add: scenario_run_tables)
  have b: "stock_batches (run_ops scenario_ops fresh_db) (product_P\<lparr>stock_level := 3\<rparr>) = [batch_B2]"
    by (simp add: stock_batches_def scenario_run_tables batch_B2_def product_P_def)
  show ?thesis
    using stock_level_is_batch_sum[OF fresh_db_inv m] fresh_db_inv m b by simp
qed

lemma dispose_nonneg:
  assumes nonneg: "list_all (\<lambda>x. 0 \<le> quantity x) (stock_batch_table db)"
    and ok: "dispose bid q r db = Inr (b', db')"
  shows "0 \<le> quantity b' \<and> list_all (\<lambda>x. 0 \<le> quantity x) (stock_batch_table db')"
proof -
  from dispose_result[OF ok] obtain b where
    q: "q \<le> quantity b"
    and b': "b' = b\<lparr>quantity := quantity b - q\<rparr>"
    and tbl: "stock_batch_table db' = put_batch b' (stock_batch_table db)"
    by auto
  from q b' have q': "0 \<le> quantity b'" by simp
  have "\<forall>x \<in> set (stock_batch_table db'). 0 \<le> quantity x"
  proof
    fix x assume "x \<in> set (stock_batch_table db')"
    then have "x = b' \<or> x \<in> set (stock_batch_table db)"
      using set_put_batch[of b' "stock_batch_table db"] by (auto simp: tbl)
    then show "0 \<le> quantity x" using nonneg q' by (auto simp: list_all_iff)
  qed
  with q' show ?thesis by (simp add: list_all_iff)
qed

text \<open>
  Claim C8. Disposing more than a batch holds fails with \<^verbatim>\<open>InsufficientQuantity\<close>
  and commits nothing: the state after the call is the state before it. A disposal that
  succeeds leaves the batch with a quantity that is not negative, so no negative
  quantity is ever stored.
\<close>

theorem dispose_more_than_available:
  assumes "find_batch bid db = Some b" and "quantity b < q"
  shows "dispose bid q rsn db = Inl InsufficientQuantity
         \<and> commit (Dispose bid q rsn) db = db
         \<and> (\<forall>q' b' db'. list_all (\<lambda>x. 0 \<le> quantity x) (stock_batch_table db) \<longrightarrow>
               dispose bid q' rsn db = Inr (b', db') \<longrightarrow>
               0 \<le> quantity b' \<and> list_all (\<lambda>x. 0 \<le> quantity x) (stock_batch_table db'))"
proof -
  from assms have f: "dispose bid q rsn db = Inl InsufficientQuantity"
    by (simp add: dispose_def)
  then have "commit (Dispose bid q rsn) db = db" by (simp add: commit_def)
  with f dispose_nonneg show ?thesis by blast
qed

lemma scenario_find_B1: "find_batch 1 scenario_db = Some batch_B1"
  by (simp add: find_batch_def scenario_db_def batch_B1_def)

theorem dispose_more_than_available_witness:
  "find_batch 1 scenario_db = Some batch_B1 \<and> quantity batch_B1 < 6
   \<and> dispose 1 6 ''expired'' scenario_db = Inl InsufficientQuantity
   \<and> commit (Dispose 1 6 ''expired'') scenario_db = scenario_db
   \<and> list_all (\<lambda>x. 0 \<le> quantity x) (stock_batch_table scenario_db)
   \<and> (\<exists>b' db'. dispose 1 5 ''expired'' scenario_db = Inr (b', db') \<and> quantity b' = 0
         \<and> list_all (\<lambda>x. 0 \<le> quantity x) (stock_batch_table db'))"
proof -
  have q: "quantity batch_B1 < 6" by (simp add: batch_B1_def)
  have n: "list_all (\<lambda>x. 0 \<le> quantity x) (stock_batch_table scenario_db)"
    by (simp add: scenario_db_def batch_B1_def batch_B2_def)
  obtain b' db' where d: "dispose 1 5 ''expired'' scenario_db = Inr (b', db')"
    and z: "quantity b' = 0"
    by (simp add: dispose_def scenario_find_B1 batch_B1_def Let_def)
  show ?thesis
    using dispose_more_than_available[OF scenario_find_B1 q, of "''expired''"] q n d z
    by (simp add: scenario_find_B1)
qed

lemma find_after_remove:
  "find (\<lambda>x. batch_id x = bid) (filter (\<lambda>x. batch_id x \<noteq> bid) xs) = None"
  by (induction xs) auto

text \<open>
  Claim C9. Deleting a batch that still holds units fails with \<^verbatim>\<open>BatchNotEmpty\<close>
  and removes nothing; deleting a batch whose quantity is 0 succeeds and removes it; and
  a batch that holds units can be deleted after all of them have been disposed of.
\<close>

theorem delete_batch_guard:
  assumes "find_batch bid db = Some b"
  shows "(0 < quantity b \<longrightarrow>
            delete_batch bid db = Inl BatchNotEmpty \<and> commit (DeleteBatch bid) db = db)
         \<and> (quantity b = 0 \<longrightarrow>
              (\<exists>db'. delete_batch bid db = Inr db' \<and> find_batch bid db' = None
                 \<and> stock_batch_table db'
                     = filter (\<lambda>x. batch_id x \<noteq> bid) (stock_batch_table db)))
         \<and> (0 < quantity b \<longrightarrow>
              (\<exists>b' db1 db2. dispose bid (quantity b) rsn db = Inr (b', db1)
                 \<and> quantity b' = 0 \<and> find_batch bid db1 = Some b'
                 \<and> delete_batch bid db1 = Inr db2 \<and> find_batch bid db2 = None))"
proof (intro conjI impI)
  assume "0 < quantity b"
  with assms show "delete_batch bid db = Inl BatchNotEmpty" by (simp add: delete_batch_def)
  then show "commit (DeleteBatch bid) db = db" by (simp add: commit_def)
next
  assume "quantity b = 0"
  with assms show "\<exists>db'. delete_batch bid db = Inr db' \<and> find_batch bid db' = None
                 \<and> stock_batch_table db'
                     = filter (\<lambda>x. batch_id x \<noteq> bid) (stock_batch_table db)"
    by (simp add: delete_batch_def find_batch_def append_log_frame find_after_remove)
next
  assume pos: "0 < quantity b"
  define b' where "b' = b\<lparr>quantity := 0\<rparr>"
  define db1 where "db1 = append_log (batch_product_id b) ''DISPOSE'' rsn
                              (db\<lparr>stock_batch_table := put_batch b' (stock_batch_table db),
                                  product_table :=
                                    adjust_stock (batch_product_id b) (- quantity b)
                                      (product_table db)\<rparr>)"
  from assms have idb: "batch_id b = bid"
    using find_batch_Some[of bid "stock_batch_table db" b] by (simp add: find_batch_def)
  have d: "dispose bid (quantity b) rsn db = Inr (b', db1)"
    using assms pos by (simp add: dispose_def Let_def b'_def db1_def)
  have "batch_id b' = bid" by (simp add: b'_def idb)
  then have f1: "find_batch bid db1 = Some b'"
    using find_put_batch[of b' "stock_batch_table db"]
    by (simp add: find_batch_def db1_def append_log_frame)
  have q0: "quantity b' = 0" by (simp add: b'_def)
  from f1 q0 obtain db2 where "delete_batch bid db1 = Inr db2" "find_batch bid db2 = None"
    by (simp add: delete_batch_def find_batch_def append_log_frame find_after_remove)
  with d q0 f1 show "\<exists>b' db1 db2. dispose bid (quantity b) rsn db = Inr (b', db1)
                 \<and> quantity b' = 0 \<and> find_batch bid db1 = Some b'
                 \<and> delete_batch bid db1 = Inr db2 \<and> find_batch bid db2 = None"
    by blast
qed

theorem delete_batch_guard_witness:
  "find_batch 1 scenario_db = Some batch_B1 \<and> 0 < quantity batch_B1
   \<and> delete_batch 1 scenario_db = Inl BatchNotEmpty
   \<and> commit (DeleteBatch 1) scenario_db = scenario_db
   \<and> (\<exists>b' db1 db2. dispose 1 5 ''expired'' scenario_db = Inr (b', db1)
         \<and> find_batch 1 db1 = Some b' \<and> quantity b' = 0
         \<and> delete_batch 1 db1 = Inr db2 \<and> find_batch 1 db2 = None
         \<and> stock_batch_table db2 = [batch_B2])"
proof -
  have q: "0 < quantity batch_B1" "quantity batch_B1 = 5" by (simp_all add: batch_B1_def)
  from delete_batch_guard[OF scenario_find_B1, of "''expired''"] q
  obtain b' db1 db2 where d: "dispose 1 5 ''expired'' scenario_db = Inr (b', db1)"
    and z: "quantity b' = 0" and f1: "find_batch 1 db1 = Some b'"
    and del: "delete_batch 1 db1 = Inr db2" and f2: "find_batch 1 db2 = None"
    and g: "delete_batch 1 scenario_db = Inl BatchNotEmpty"
           "commit (DeleteBatch 1) scenario_db = scenario_db"
    by auto
  from dispose_result[OF d] have t1: "stock_batch_table db1 = put_batch b' (stock_batch_table scenario_db)"
    and b'eq: "b' = batch_B1\<lparr>quantity := quantity batch_B1 - 5\<rparr>"
    by (auto simp: scenario_find_B1)
  from delete_batch_guard[OF f1, of "''expired''"] z del
  have "stock_batch_table db2 = filter (\<lambda>x. batch_id x \<noteq> 1) (stock_batch_table db1)" by auto
  then have t2: "stock_batch_table db2 = [batch_B2]"
    by (simp add: t1 b'eq scenario_db_def batch_B1_def batch_B2_def)
  from d z f1 del f2 g t2 q show ?thesis by (simp add: scenario_find_B1)
qed

end
